theory Spec2Isabelle
  imports Complex_Main
begin

section \<open>Flexipop: placement resolver, popper controller and overlay controller\<close>

text \<open>
  A shallow embedding of the TypeScript sources \<^verbatim>\<open>utils.ts\<close>, \<^verbatim>\<open>popper.ts\<close>,
  \<^verbatim>\<open>create-overlay/helpers.ts\<close> and \<^verbatim>\<open>create-overlay/create-overlay.ts\<close>, and of the
  second version of the popper controller that the sources hold.

  \<^item> JavaScript numbers are idealised as \<open>real\<close>: no rounding and no NaN.
  \<^item> A value whose run-time type the code inspects (\<^verbatim>\<open>instanceof\<close>, \<^verbatim>\<open>typeof\<close>,
    truthiness) is a \<open>js_value\<close>.
  \<^item> The browser state that the code reads and writes (layout, style properties,
    attributes, event listeners, pending transition callbacks) is the record \<open>browser\<close>,
    threaded through every operation. Every call of a browser primitive or of a consumer
    callback is also appended to the field \<open>effects\<close>, so that the order of calls can be
    stated.
  \<^item> A thrown \<^verbatim>\<open>Error\<close> is the \<open>Inl\<close> branch of a sum.
  \<^item> Consumer callbacks (\<^verbatim>\<open>onUpdate\<close>, \<^verbatim>\<open>onShow\<close>, ...) are opaque observers: a
    record says whether one is registered, and an invocation is an entry of \<open>effects\<close>.
  \<^item> Where two records of the source share a field name, the selector is written with
    the record's name in front: \<open>CreatePopper.placement c\<close> is \<^verbatim>\<open>this.placement\<close> of a
    popper controller.
\<close>

subsection \<open>JavaScript values\<close>

type_synonym element = nat

datatype js_value =
    JUndefined
  | JNull
  | JBool bool
  | JNum real
  | JStr string
  | JElement element

text \<open>Truthiness, as \<^verbatim>\<open>!v\<close>, \<^verbatim>\<open>a && b\<close> and \<^verbatim>\<open>a || b\<close> test it.\<close>

fun truthy :: "js_value \<Rightarrow> bool" where
  "truthy JUndefined = False"
| "truthy JNull = False"
| "truthy (JBool b) = b"
| "truthy (JNum n) = (n \<noteq> 0)"
| "truthy (JStr s) = (s \<noteq> [])"
| "truthy (JElement e) = True"

text \<open>\<^verbatim>\<open>v instanceof HTMLElement\<close>\<close>

fun instanceofHTMLElement :: "js_value \<Rightarrow> bool" where
  "instanceofHTMLElement (JElement e) = True"
| "instanceofHTMLElement v = False"

text \<open>\<^verbatim>\<open>typeof v === "number"\<close>\<close>

fun typeofNumber :: "js_value \<Rightarrow> bool" where
  "typeofNumber (JNum n) = True"
| "typeofNumber v = False"

text \<open>
  The errors the code throws. The source throws plain \<^verbatim>\<open>Error\<close> objects told apart by
  their message; the constructors carry the names the specification gives them.
  \<open>InvalidElement\<close> is "Reference or popper element is null or undefined" of
  \<^verbatim>\<open>getDimensions\<close>; \<open>TypeError\<close> is the engine's error for a method call on a value
  that has no such method.
\<close>

datatype error =
    InvalidReferenceElement
  | InvalidPopperElement
  | InvalidOffsetDistance
  | InvalidElement
  | InvalidTriggerElement
  | InvalidContentElement
  | TypeError

subsection \<open>Placements, dimensions, coordinates\<close>

datatype side = Top | Bottom | Left | Right

datatype align = Start | Middle | End

text \<open>
  A placement token is a side with an optional alignment suffix:
  \<^verbatim>\<open>"top"\<close> is \<open>Placement Top None\<close>, \<^verbatim>\<open>"left-end"\<close> is \<open>Placement Left (Some End)\<close>.
\<close>

datatype placement = Placement side "align option"

text \<open>The fields of a \<^verbatim>\<open>DOMRect\<close> that the code reads.\<close>

record DOMRect =
  left :: real
  top :: real
  right :: real
  width :: real
  height :: real

record Dimensions =
  popperHeight :: real
  popperWidth :: real
  refHeight :: real
  refWidth :: real
  refLeft :: real
  refTop :: real
  refRight :: real

text \<open>The argument object of \<^verbatim>\<open>determinePosition\<close>, as \<^verbatim>\<open>initPlacement\<close> builds it.\<close>

record PositioningContext =
  placement :: placement
  refWidth :: real
  refTop :: real
  refLeft :: real
  popperWidth :: real
  refHeight :: real
  popperHeight :: real
  windowHeight :: real
  windowWidth :: real
  offsetDistance :: real

record Coordinate =
  x :: real
  y :: real

subsection \<open>Browser state\<close>

text \<open>
  A style value is either the template string \<^verbatim>\<open>`${v}px`\<close> or the empty string.
\<close>

datatype css_value = Px real | EmptyString

datatype target = Window | Document | Node element

text \<open>
  The function objects that the two classes register as listeners. Each is an arrow
  function stored in a property of the instance, so its identity is fixed per instance.
\<close>

datatype handler =
    InitPositionate
  | UpdatePosition
  | HandleKeyDown
  | HandleDocumentClick
  | ToggleStateOnClick
  | ShowOnMouseEnter
  | HideOnMouseLeaseTrigger
  | HideOnMouseLeave

type_synonym listener = "target \<times> string \<times> handler"

datatype effect =
    GetBoundingClientRect element
  | SetProperty element string css_value
  | SetAttribute element string string
  | AddEventListener target string handler
  | RemoveEventListener target string handler
  | PreventDefault
  | OnUpdate real real placement
  | BeforeShow
  | OnShow
  | BeforeHide
  | OnHide
  | OnToggle bool

text \<open>
  \<open>boundingClientRect\<close>, \<open>innerWidth\<close>, \<open>innerHeight\<close>, \<open>contains\<close>, \<open>hover\<close>,
  \<open>querySelector\<close> and \<open>transitionRunning\<close> are what the browser answers when asked;
  \<open>style\<close>, \<open>attributes\<close>, \<open>listeners\<close> and \<open>afterTransitionQueue\<close> are what the code
  changes.
\<close>

record browser =
  boundingClientRect :: "element \<Rightarrow> DOMRect"
  innerWidth :: real
  innerHeight :: real
  contains :: "element \<Rightarrow> element \<Rightarrow> bool"
  hover :: "element \<Rightarrow> bool"
  querySelector :: "string \<Rightarrow> element option"
  transitionRunning :: "element \<Rightarrow> bool"
  style :: "element \<Rightarrow> string \<Rightarrow> css_value"
  attributes :: "element \<Rightarrow> string \<Rightarrow> string option"
  listeners :: "listener list"
  afterTransitionQueue :: "element list"
  effects :: "effect list"

definition emit :: "effect \<Rightarrow> browser \<Rightarrow> browser" where
  "emit e b = b\<lparr>effects := effects b @ [e]\<rparr>"

text \<open>\<^verbatim>\<open>element.getBoundingClientRect()\<close>\<close>

definition getBoundingClientRect :: "element \<Rightarrow> browser \<Rightarrow> DOMRect \<times> browser" where
  "getBoundingClientRect el b = (boundingClientRect b el, emit (GetBoundingClientRect el) b)"

text \<open>\<^verbatim>\<open>element.style.setProperty(name, value)\<close>\<close>

definition setProperty :: "element \<Rightarrow> string \<Rightarrow> css_value \<Rightarrow> browser \<Rightarrow> browser" where
  "setProperty el name v b =
     emit (SetProperty el name v) (b\<lparr>style := (style b)(el := (style b el)(name := v))\<rparr>)"

text \<open>
  \<^verbatim>\<open>target.addEventListener(type, handler)\<close>: the DOM appends the listener to the
  listener list unless the list already holds one with the same target, type and callback.
\<close>

definition appendListener :: "listener \<Rightarrow> listener list \<Rightarrow> listener list" where
  "appendListener l ls = (if l \<in> set ls then ls else ls @ [l])"

definition addEventListener :: "target \<Rightarrow> string \<Rightarrow> handler \<Rightarrow> browser \<Rightarrow> browser" where
  "addEventListener t ty h b =
     emit (AddEventListener t ty h) (b\<lparr>listeners := appendListener (t, ty, h) (listeners b)\<rparr>)"

text \<open>\<^verbatim>\<open>target.removeEventListener(type, handler)\<close>\<close>

definition removeEventListener :: "target \<Rightarrow> string \<Rightarrow> handler \<Rightarrow> browser \<Rightarrow> browser" where
  "removeEventListener t ty h b =
     emit (RemoveEventListener t ty h) (b\<lparr>listeners := remove1 (t, ty, h) (listeners b)\<rparr>)"

text \<open>
  Modelled from the spec: \<^verbatim>\<open>setAttributes\<close> of the package \<^verbatim>\<open>@flexilla/utilities\<close> is
  not part of the sources; it "sets a mapping of attribute names to string values on an
  element". The code only ever passes one attribute at a time.
\<close>

definition setAttributes :: "element \<Rightarrow> string \<Rightarrow> string \<Rightarrow> browser \<Rightarrow> browser" where
  "setAttributes el name v b =
     emit (SetAttribute el name v)
       (b\<lparr>attributes := (attributes b)(el := (attributes b el)(name \<mapsto> v))\<rparr>)"

text \<open>\<^verbatim>\<open>element.getAttribute(name)\<close>\<close>

definition getAttribute :: "element \<Rightarrow> string \<Rightarrow> browser \<Rightarrow> string option" where
  "getAttribute el name b = attributes b el name"

subsection \<open>Placement resolver\<close>

text \<open>
  Modelled from the spec: the module \<^verbatim>\<open>helpers.ts\<close> that defines \<^verbatim>\<open>determinePosition\<close>
  is missing from the sources (only its caller in \<^verbatim>\<open>popper.ts\<close> and its test are there).
  The definitions below follow section 4.2 of the specification step by step:
  decomposition of the token, the unclipped coordinate, clipping of each axis into
  \<open>[0, viewportExtent - popperExtent]\<close> with the lower bound winning.
\<close>

fun alignOf :: "align option \<Rightarrow> align" where
  "alignOf None = Middle"
| "alignOf (Some a) = a"

text \<open>
  Modelled from the spec: the cross-axis formulas of step 2 (\<^verbatim>\<open>helpers.ts\<close> is missing);
  \<open>refStart\<close> is \<open>refLeft\<close> or \<open>refTop\<close>, the extents are widths or heights.
\<close>

fun crossAxis :: "align \<Rightarrow> real \<Rightarrow> real \<Rightarrow> real \<Rightarrow> real" where
  "crossAxis Start refStart refExtent popperExtent = refStart"
| "crossAxis Middle refStart refExtent popperExtent = refStart + refExtent / 2 - popperExtent / 2"
| "crossAxis End refStart refExtent popperExtent = refStart + refExtent - popperExtent"

text \<open>
  Modelled from the spec: step 3, clipping into \<open>[0, viewportExtent - popperExtent]\<close>
  with the lower bound winning (\<^verbatim>\<open>helpers.ts\<close> is missing).
\<close>

definition clip :: "real \<Rightarrow> real \<Rightarrow> real \<Rightarrow> real" where
  "clip v viewportExtent popperExtent = max 0 (min v (viewportExtent - popperExtent))"

text \<open>
  Modelled from the spec: step 2, the unclipped coordinate of each side
  (\<^verbatim>\<open>helpers.ts\<close> is missing).
\<close>

fun unclipped :: "side \<Rightarrow> align \<Rightarrow> PositioningContext \<Rightarrow> Coordinate" where
  "unclipped Top a ctx =
     \<lparr>x = crossAxis a (refLeft ctx) (refWidth ctx) (popperWidth ctx),
      y = refTop ctx - popperHeight ctx - offsetDistance ctx\<rparr>"
| "unclipped Bottom a ctx =
     \<lparr>x = crossAxis a (refLeft ctx) (refWidth ctx) (popperWidth ctx),
      y = refTop ctx + refHeight ctx + offsetDistance ctx\<rparr>"
| "unclipped Left a ctx =
     \<lparr>x = refLeft ctx - popperWidth ctx - offsetDistance ctx,
      y = crossAxis a (refTop ctx) (refHeight ctx) (popperHeight ctx)\<rparr>"
| "unclipped Right a ctx =
     \<lparr>x = refLeft ctx + refWidth ctx + offsetDistance ctx,
      y = crossAxis a (refTop ctx) (refHeight ctx) (popperHeight ctx)\<rparr>"

text \<open>
  Modelled from the spec: steps 1 to 4 put together (\<^verbatim>\<open>helpers.ts\<close> is missing).
\<close>

definition determinePosition :: "PositioningContext \<Rightarrow> Coordinate" where
  "determinePosition ctx =
     (case placement ctx of Placement s a \<Rightarrow>
        let u = unclipped s (alignOf a) ctx
        in \<lparr>x = clip (x u) (windowWidth ctx) (popperWidth ctx),
            y = clip (y u) (windowHeight ctx) (popperHeight ctx)\<rparr>)"

subsection \<open>Dimension reader (\<^verbatim>\<open>utils.ts\<close>)\<close>

text \<open>
  \<^verbatim>\<open>getRect\<close> is the closure inside \<^verbatim>\<open>getDimensions\<close>; the \<^verbatim>\<open>WeakMap\<close> it closes over
  is the map \<open>cache\<close>, created empty by every call of \<^verbatim>\<open>getDimensions\<close> and dropped
  when the call returns.
\<close>

type_synonym cache = "element \<rightharpoonup> DOMRect"

definition getRect :: "element \<Rightarrow> cache \<times> browser \<Rightarrow> DOMRect \<times> cache \<times> browser" where
  "getRect el cb =
     (case cb of (cache, b) \<Rightarrow>
        (case cache el of
           None \<Rightarrow>
             (case getBoundingClientRect el b of (r, b') \<Rightarrow> (r, cache(el \<mapsto> r), b'))
         | Some r \<Rightarrow> (r, cache, b)))"

text \<open>
  The arguments are typed \<^verbatim>\<open>HTMLElement\<close>, and the first statement tests them for
  truthiness; a truthy value that is not an element has no \<^verbatim>\<open>getBoundingClientRect\<close>.
\<close>

definition getDimensions :: "js_value \<Rightarrow> js_value \<Rightarrow> browser \<Rightarrow> error + Dimensions \<times> browser" where
  "getDimensions reference popper b =
     (if \<not> truthy reference \<or> \<not> truthy popper then Inl InvalidElement
      else
        (case popper of
           JElement p \<Rightarrow>
             (case reference of
                JElement r \<Rightarrow>
                  (case getRect p (Map.empty, b) of (popperRect, cache1, b1) \<Rightarrow>
                   case getRect r (cache1, b1) of (refRect, cache2, b2) \<Rightarrow>
                     Inr (\<lparr>Dimensions.popperHeight = height popperRect,
                           Dimensions.popperWidth = width popperRect,
                           Dimensions.refHeight = height refRect,
                           Dimensions.refWidth = width refRect,
                           Dimensions.refLeft = left refRect,
                           Dimensions.refTop = top refRect,
                           Dimensions.refRight = right refRect\<rparr>, b2))
              | _ \<Rightarrow> Inl TypeError)
         | _ \<Rightarrow> Inl TypeError))"

subsection \<open>Popper controller (\<^verbatim>\<open>popper.ts\<close>)\<close>

record EventEffect =
  disableOnScroll :: "bool option"
  disableOnResize :: "bool option"

text \<open>
  \<^verbatim>\<open>PopperOptions\<close>: every property is optional. \<open>offsetDistance\<close> is a \<open>js_value\<close>
  (\<open>JUndefined\<close> when the property is absent) because the constructor inspects its
  run-time type; \<open>onUpdate\<close> says whether a callback is supplied.
\<close>

record PopperOptions =
  offsetDistance :: js_value
  placement :: "placement option"
  eventEffect :: "EventEffect option"
  onUpdate :: bool

text \<open>
  The private fields of the class. \<open>reference\<close> and \<open>popper\<close> are only assigned by the
  constructor, after its \<^verbatim>\<open>instanceof HTMLElement\<close> tests, so they are elements.
\<close>

record CreatePopper =
  reference :: element
  popper :: element
  offsetDistance :: js_value
  placement :: placement
  disableOnResize :: bool
  disableOnScroll :: bool
  onUpdate :: bool
  isEventRegistrer :: bool

text \<open>
  Modelled from the spec: the module \<^verbatim>\<open>const.ts\<close> that defines the two defaults is
  missing from the sources; the specification gives \<^verbatim>\<open>placement = "bottom"\<close> and
  \<^verbatim>\<open>offsetDistance = 0\<close>.
\<close>

definition DEFAULT_OFFSETDISTANCE :: real where
  "DEFAULT_OFFSETDISTANCE = 0"

text \<open>
  Modelled from the spec: the default placement \<^verbatim>\<open>"bottom"\<close> (\<^verbatim>\<open>const.ts\<close> is missing).
\<close>

definition DEFAULT_PLACEMENT :: placement where
  "DEFAULT_PLACEMENT = Placement Bottom None"

text \<open>The default \<^verbatim>\<open>options = {}\<close>.\<close>

definition no_options :: PopperOptions where
  "no_options =
     \<lparr>PopperOptions.offsetDistance = JUndefined, PopperOptions.placement = None,
      PopperOptions.eventEffect = None, PopperOptions.onUpdate = False\<rparr>"

text \<open>
  \<^verbatim>\<open>constructor(reference, popper, options)\<close>. A destructuring default applies when the
  property is \<^verbatim>\<open>undefined\<close>; \<^verbatim>\<open>disableOnResize || false\<close> turns an absent flag into
  \<open>False\<close>. The constructor leaves the browser as it is.
\<close>

definition CreatePopper_constructor ::
  "js_value \<Rightarrow> js_value \<Rightarrow> PopperOptions \<Rightarrow> browser \<Rightarrow> error + CreatePopper \<times> browser" where
  "CreatePopper_constructor ref pop options b =
     (let offset = (if PopperOptions.offsetDistance options = JUndefined
                    then JNum DEFAULT_OFFSETDISTANCE
                    else PopperOptions.offsetDistance options);
          plc = (case PopperOptions.placement options of
                   None \<Rightarrow> DEFAULT_PLACEMENT
                 | Some p \<Rightarrow> p);
          ee = (case PopperOptions.eventEffect options of
                  None \<Rightarrow> \<lparr>EventEffect.disableOnScroll = None, EventEffect.disableOnResize = None\<rparr>
                | Some e \<Rightarrow> e)
      in case ref of
           JElement r \<Rightarrow>
             (case pop of
                JElement p \<Rightarrow>
                  if truthy (PopperOptions.offsetDistance options) \<and>
                     \<not> typeofNumber (PopperOptions.offsetDistance options)
                  then Inl InvalidOffsetDistance
                  else Inr (\<lparr>reference = r,
                             popper = p,
                             offsetDistance = offset,
                             placement = plc,
                             disableOnResize =
                               (case EventEffect.disableOnResize ee of
                                  None \<Rightarrow> False | Some f \<Rightarrow> f),
                             disableOnScroll =
                               (case EventEffect.disableOnScroll ee of
                                  None \<Rightarrow> False | Some f \<Rightarrow> f),
                             onUpdate = PopperOptions.onUpdate options,
                             isEventRegistrer = False\<rparr>, b)
              | _ \<Rightarrow> Inl InvalidPopperElement)
         | _ \<Rightarrow> Inl InvalidReferenceElement)"

text \<open>
  \<^verbatim>\<open>validateElements\<close>: the three tests in the order of the source; on success the
  number that \<^verbatim>\<open>typeof this.offsetDistance !== "number"\<close> let through is returned.
\<close>

definition validateElements :: "CreatePopper \<Rightarrow> error + real" where
  "validateElements c =
     (if \<not> instanceofHTMLElement (JElement (reference c)) then Inl InvalidReferenceElement
      else if \<not> instanceofHTMLElement (JElement (popper c)) then Inl InvalidPopperElement
      else (case CreatePopper.offsetDistance c of
              JNum n \<Rightarrow> Inr n
            | _ \<Rightarrow> Inl InvalidOffsetDistance))"

text \<open>The names of the two custom style properties.\<close>

definition placementX :: string where
  "placementX = ''--fx-popper-placement-x''"

definition placementY :: string where
  "placementY = ''--fx-popper-placement-y''"

definition setPopperStyleProperty :: "real \<Rightarrow> real \<Rightarrow> CreatePopper \<Rightarrow> browser \<Rightarrow> browser" where
  "setPopperStyleProperty vx vy c b =
     setProperty (popper c) placementY (Px vy)
       (setProperty (popper c) placementX (Px vx) b)"

definition setInitialStyles :: "CreatePopper \<Rightarrow> browser \<Rightarrow> browser" where
  "setInitialStyles c b =
     setProperty (popper c) placementY EmptyString
       (setProperty (popper c) placementX EmptyString b)"

text \<open>
  \<^verbatim>\<open>initPlacement(placement?, offsetDistance?)\<close>. The arguments are typed \<^verbatim>\<open>Placement\<close>
  and \<^verbatim>\<open>number\<close>; \<^verbatim>\<open>placement || this.placement\<close> takes the argument when it is given
  (every placement token is truthy), \<^verbatim>\<open>offsetDistance || this.offsetDistance\<close> takes
  the argument when it is given and not 0.
\<close>

definition initPlacement ::
  "placement option \<Rightarrow> real option \<Rightarrow> CreatePopper \<Rightarrow> browser \<Rightarrow> error + browser" where
  "initPlacement plc off c b =
     (case validateElements c of
        Inl e \<Rightarrow> Inl e
      | Inr n \<Rightarrow>
          let b1 = setInitialStyles c b;
              ww = innerWidth b1;
              wh = innerHeight b1
          in case getDimensions (JElement (reference c)) (JElement (popper c)) b1 of
               Inl e \<Rightarrow> Inl e
             | Inr (dims, b2) \<Rightarrow>
                 let used = (case plc of Some p \<Rightarrow> p | None \<Rightarrow> CreatePopper.placement c);
                     pos = determinePosition
                       \<lparr>PositioningContext.placement = used,
                        PositioningContext.refWidth = Dimensions.refWidth dims,
                        PositioningContext.refTop = Dimensions.refTop dims,
                        PositioningContext.refLeft = Dimensions.refLeft dims,
                        PositioningContext.popperWidth = Dimensions.popperWidth dims,
                        PositioningContext.refHeight = Dimensions.refHeight dims,
                        PositioningContext.popperHeight = Dimensions.popperHeight dims,
                        PositioningContext.windowHeight = wh,
                        PositioningContext.windowWidth = ww,
                        PositioningContext.offsetDistance =
                          (case off of
                             Some v \<Rightarrow> if v \<noteq> 0 then v else n
                           | None \<Rightarrow> n)\<rparr>;
                     b3 = setPopperStyleProperty (x pos) (y pos) c b2
                 in Inr (if CreatePopper.onUpdate c
                         then emit (OnUpdate (x pos) (y pos) used) b3
                         else b3))"

definition attachWindowEvent :: "CreatePopper \<Rightarrow> browser \<Rightarrow> CreatePopper \<times> browser" where
  "attachWindowEvent c b =
     (let b1 = (if \<not> CreatePopper.disableOnResize c
                then addEventListener Window ''resize'' InitPositionate b else b);
          b2 = (if \<not> CreatePopper.disableOnScroll c
                then addEventListener Window ''scroll'' InitPositionate b1 else b1)
      in (c\<lparr>isEventRegistrer := True\<rparr>, b2))"

definition initPositionate :: "CreatePopper \<Rightarrow> browser \<Rightarrow> error + browser" where
  "initPositionate c b = initPlacement None None c b"

definition resetPosition :: "CreatePopper \<Rightarrow> browser \<Rightarrow> browser" where
  "resetPosition c b = setInitialStyles c b"

definition updatePosition :: "CreatePopper \<Rightarrow> browser \<Rightarrow> error + CreatePopper \<times> browser" where
  "updatePosition c b =
     (case initPositionate c b of
        Inl e \<Rightarrow> Inl e
      | Inr b1 \<Rightarrow> Inr (attachWindowEvent c b1))"

definition cleanEvents :: "CreatePopper \<Rightarrow> browser \<Rightarrow> browser" where
  "cleanEvents c b =
     (let b1 = (if \<not> CreatePopper.disableOnResize c
                then removeEventListener Window ''resize'' InitPositionate b else b)
      in if \<not> CreatePopper.disableOnScroll c
         then removeEventListener Window ''scroll'' InitPositionate b1 else b1)"

definition setOptions ::
  "placement \<Rightarrow> real option \<Rightarrow> CreatePopper \<Rightarrow> browser \<Rightarrow> error + CreatePopper \<times> browser" where
  "setOptions plc off c b =
     (case initPlacement (Some plc) off c b of
        Inl e \<Rightarrow> Inl e
      | Inr b1 \<Rightarrow>
          Inr (attachWindowEvent c (if isEventRegistrer c then cleanEvents c b1 else b1)))"

definition cleanupEvents :: "CreatePopper \<Rightarrow> browser \<Rightarrow> CreatePopper \<times> browser" where
  "cleanupEvents c b =
     (let b1 = setInitialStyles c b
      in if isEventRegistrer c
         then (c\<lparr>isEventRegistrer := False\<rparr>, cleanEvents c b1)
         else (c, b1))"

text \<open>
  The browser fires \<^verbatim>\<open>resize\<close> or \<^verbatim>\<open>scroll\<close> on the window: the controller's listener
  runs if it is registered for that event.
\<close>

definition window_event :: "string \<Rightarrow> CreatePopper \<Rightarrow> browser \<Rightarrow> error + browser" where
  "window_event ty c b =
     (if (Window, ty, InitPositionate) \<in> set (listeners b) then initPositionate c b
      else Inr b)"

subsection \<open>Popper controller, second implementation\<close>

text \<open>
  The sources hold a second version of the class (after the resolver's tests in
  \<^verbatim>\<open>determinePosition.test.ts\<close>). Its fields are those of the first, with the flag named
  \<^verbatim>\<open>isWindowEventsRegistered\<close>, which is kept in the field \<open>isEventRegistrer\<close> here; its
  constructor, \<^verbatim>\<open>validateElements\<close>, \<^verbatim>\<open>setPopperStyleProperty\<close> and
  \<^verbatim>\<open>setInitialStyles\<close> are those of the first, word for word. It registers the arrow
  function \<^verbatim>\<open>updatePosition\<close> itself as the window listener. The functions that differ
  carry the suffix \<open>_v2\<close>.
\<close>

definition initPlacement_v2 :: "CreatePopper \<Rightarrow> browser \<Rightarrow> error + browser" where
  "initPlacement_v2 c b =
     (case validateElements c of
        Inl e \<Rightarrow> Inl e
      | Inr n \<Rightarrow>
          let b1 = setInitialStyles c b;
              ww = innerWidth b1;
              wh = innerHeight b1
          in case getDimensions (JElement (reference c)) (JElement (popper c)) b1 of
               Inl e \<Rightarrow> Inl e
             | Inr (dims, b2) \<Rightarrow>
                 let pos = determinePosition
                       \<lparr>PositioningContext.placement = CreatePopper.placement c,
                        PositioningContext.refWidth = Dimensions.refWidth dims,
                        PositioningContext.refTop = Dimensions.refTop dims,
                        PositioningContext.refLeft = Dimensions.refLeft dims,
                        PositioningContext.popperWidth = Dimensions.popperWidth dims,
                        PositioningContext.refHeight = Dimensions.refHeight dims,
                        PositioningContext.popperHeight = Dimensions.popperHeight dims,
                        PositioningContext.windowHeight = wh,
                        PositioningContext.windowWidth = ww,
                        PositioningContext.offsetDistance = n\<rparr>;
                     b3 = setPopperStyleProperty (x pos) (y pos) c b2
                 in Inr (if CreatePopper.onUpdate c
                         then emit (OnUpdate (x pos) (y pos) (CreatePopper.placement c)) b3
                         else b3))"

definition removeWindowEvents_v2 :: "CreatePopper \<Rightarrow> browser \<Rightarrow> CreatePopper \<times> browser" where
  "removeWindowEvents_v2 c b =
     (if isEventRegistrer c
      then
        (let b1 = (if \<not> CreatePopper.disableOnResize c
                   then removeEventListener Window ''resize'' UpdatePosition b else b);
             b2 = (if \<not> CreatePopper.disableOnScroll c
                   then removeEventListener Window ''scroll'' UpdatePosition b1 else b1)
         in (c\<lparr>isEventRegistrer := False\<rparr>, b2))
      else (c, b))"

definition attachWindowEvent_v2 :: "CreatePopper \<Rightarrow> browser \<Rightarrow> CreatePopper \<times> browser" where
  "attachWindowEvent_v2 c b =
     (case (if isEventRegistrer c then removeWindowEvents_v2 c b else (c, b)) of
        (c1, b1) \<Rightarrow>
          let b2 = (if \<not> CreatePopper.disableOnResize c1
                    then addEventListener Window ''resize'' UpdatePosition b1 else b1);
              b3 = (if \<not> CreatePopper.disableOnScroll c1
                    then addEventListener Window ''scroll'' UpdatePosition b2 else b2)
          in (c1\<lparr>isEventRegistrer := True\<rparr>, b3))"

definition updatePosition_v2 :: "CreatePopper \<Rightarrow> browser \<Rightarrow> error + CreatePopper \<times> browser" where
  "updatePosition_v2 c b =
     (case initPlacement_v2 c b of
        Inl e \<Rightarrow> Inl e
      | Inr b1 \<Rightarrow> Inr (attachWindowEvent_v2 c b1))"

text \<open>
  \<^verbatim>\<open>setOptions({placement, offsetDistance})\<close> of the second implementation assigns both
  fields before it positions; \<^verbatim>\<open>offsetDistance || this.offsetDistance\<close> keeps the old
  offset when the argument is absent or 0.
\<close>

definition setOptions_v2 ::
  "placement \<Rightarrow> real option \<Rightarrow> CreatePopper \<Rightarrow> browser \<Rightarrow> error + CreatePopper \<times> browser" where
  "setOptions_v2 plc off c b =
     (let c1 = c\<lparr>CreatePopper.placement := plc,
                 CreatePopper.offsetDistance :=
                   (case off of
                      Some v \<Rightarrow> if v \<noteq> 0 then JNum v else CreatePopper.offsetDistance c
                    | None \<Rightarrow> CreatePopper.offsetDistance c)\<rparr>
      in case initPlacement_v2 c1 b of
           Inl e \<Rightarrow> Inl e
         | Inr b1 \<Rightarrow> Inr (attachWindowEvent_v2 c1 b1))"

definition cleanupEvents_v2 :: "CreatePopper \<Rightarrow> browser \<Rightarrow> CreatePopper \<times> browser" where
  "cleanupEvents_v2 c b = removeWindowEvents_v2 c (setInitialStyles c b)"

subsection \<open>Overlay helpers (\<^verbatim>\<open>create-overlay/helpers.ts\<close>)\<close>

text \<open>The union type \<^verbatim>\<open>"open" | "close"\<close> and its two strings.\<close>

datatype overlay_state = Open | Close

fun stateString :: "overlay_state \<Rightarrow> string" where
  "stateString Open = ''open''"
| "stateString Close = ''close''"

text \<open>
  \<^verbatim>\<open>updateOverlayState({state, trigger, popper})\<close>; the template \<^verbatim>\<open>`${isOpen}`\<close> is
  \<^verbatim>\<open>"true"\<close> or \<^verbatim>\<open>"false"\<close>.
\<close>

definition updateOverlayState :: "overlay_state \<Rightarrow> element \<Rightarrow> element \<Rightarrow> browser \<Rightarrow> browser" where
  "updateOverlayState state trigger pop b =
     (let isOpen = (state = Open)
      in setAttributes trigger ''aria-expanded'' (if isOpen then ''true'' else ''false'')
           (setAttributes pop ''data-state'' (stateString state) b))"

definition showOverlay :: "element \<Rightarrow> element \<Rightarrow> browser \<Rightarrow> browser" where
  "showOverlay trigger pop b = updateOverlayState Open trigger pop b"

definition hideOverlay :: "element \<Rightarrow> element \<Rightarrow> browser \<Rightarrow> browser" where
  "hideOverlay trigger pop b = updateOverlayState Close trigger pop b"

subsection \<open>Overlay controller (\<^verbatim>\<open>create-overlay/create-overlay.ts\<close>)\<close>

datatype strategy = Click | Hover

text \<open>
  \<^verbatim>\<open>OverlayOptions\<close>: every property is optional. \<open>popper\<close> is
  \<^verbatim>\<open>options.popper?.eventEffect\<close>; the five callbacks are flags saying whether one is
  supplied.
\<close>

record OverlayOptions =
  defaultState :: "overlay_state option"
  preventFromCloseOutside :: "bool option"
  preventCloseFromInside :: "bool option"
  placement :: "placement option"
  offsetDistance :: "real option"
  triggerStrategy :: "strategy option"
  popper :: "EventEffect option"
  beforeShow :: bool
  beforeHide :: bool
  onShow :: bool
  onHide :: bool
  onToggle :: bool

record CreateOverlay =
  triggerElement :: element
  contentElement :: element
  triggerStrategy :: strategy
  placement :: placement
  offsetDistance :: real
  preventFromCloseOutside :: bool
  preventFromCloseInside :: bool
  options :: OverlayOptions
  defaultState :: overlay_state
  popper :: CreatePopper
  eventEffect :: "EventEffect option"

text \<open>
  Modelled from the spec: the selector function \<^verbatim>\<open>$\<close> of \<^verbatim>\<open>@flexilla/utilities\<close>,
  which \<^verbatim>\<open>getElement\<close> calls on a string, is not part of the sources; it "resolves a
  string selector to a single element handle or nothing", which is what \<open>querySelector\<close>
  of the browser answers. The rest is \<^verbatim>\<open>getElement\<close> of the source.
\<close>

definition getElement :: "js_value \<Rightarrow> browser \<Rightarrow> js_value" where
  "getElement el b =
     (case el of
        JStr sel \<Rightarrow> (case querySelector b sel of Some e \<Rightarrow> JElement e | None \<Rightarrow> JUndefined)
      | JElement e \<Rightarrow> JElement e
      | _ \<Rightarrow> JUndefined)"

definition onToggleState :: "bool \<Rightarrow> CreateOverlay \<Rightarrow> browser \<Rightarrow> browser" where
  "onToggleState isHidden ov b =
     (if onToggle (options ov) then emit (OnToggle isHidden) b else b)"

text \<open>
  The callback that \<^verbatim>\<open>hide\<close> hands to \<^verbatim>\<open>afterTransition\<close>. It is a closure over
  \<^verbatim>\<open>this\<close>, so it works on the overlay as it is when the callback runs.
\<close>

definition hideCallback :: "CreateOverlay \<Rightarrow> browser \<Rightarrow> CreateOverlay \<times> browser" where
  "hideCallback ov b =
     (let b1 = onToggleState True ov b
      in case cleanupEvents (CreateOverlay.popper ov) b1 of
           (c, b2) \<Rightarrow>
             (ov\<lparr>CreateOverlay.popper := c\<rparr>,
              if onHide (options ov) then emit OnHide b2 else b2))"

text \<open>
  Modelled from the spec: \<^verbatim>\<open>afterTransition\<close> of \<^verbatim>\<open>@flexilla/utilities\<close> is not part of
  the sources; it "invokes a callback once a CSS transition on a given element completes
  (or immediately if none is running)". The only callback the code passes is the one of
  \<^verbatim>\<open>hide\<close>, so a waiting callback is recorded by its element in \<open>afterTransitionQueue\<close>.
\<close>

definition afterTransition :: "element \<Rightarrow> CreateOverlay \<Rightarrow> browser \<Rightarrow> CreateOverlay \<times> browser" where
  "afterTransition el ov b =
     (if transitionRunning b el
      then (ov, b\<lparr>afterTransitionQueue := afterTransitionQueue b @ [el]\<rparr>)
      else hideCallback ov b)"

text \<open>
  The transition of an element completes: every callback waiting for it runs once, in the
  order of registration, and waits no more.
\<close>

definition transitionEnd :: "element \<Rightarrow> CreateOverlay \<Rightarrow> browser \<Rightarrow> CreateOverlay \<times> browser" where
  "transitionEnd el ov b =
     ((\<lambda>(ov', b'). hideCallback ov' b') ^^ length (filter (\<lambda>e. e = el) (afterTransitionQueue b)))
       (ov, b\<lparr>afterTransitionQueue := filter (\<lambda>e. e \<noteq> el) (afterTransitionQueue b)\<rparr>)"

text \<open>\<^verbatim>\<open>hide()\<close>\<close>

definition overlay_hide :: "CreateOverlay \<Rightarrow> browser \<Rightarrow> CreateOverlay \<times> browser" where
  "overlay_hide ov b =
     (let b1 = (if beforeHide (options ov) then emit BeforeHide b else b);
          b2 = updateOverlayState Close (triggerElement ov) (contentElement ov) b1;
          b3 = (if CreateOverlay.triggerStrategy ov = Click
                then removeEventListener Document ''click'' HandleDocumentClick b2 else b2);
          b4 = removeEventListener Document ''keydown'' HandleKeyDown b3;
          b5 = (if CreateOverlay.triggerStrategy ov = Hover
                then removeEventListener (Node (contentElement ov)) ''mouseleave'' HideOnMouseLeave
                       (removeEventListener (Node (triggerElement ov)) ''mouseleave''
                          HideOnMouseLeaseTrigger b4)
                else b4)
      in afterTransition (contentElement ov) ov b5)"

text \<open>\<^verbatim>\<open>show()\<close>: it throws when \<^verbatim>\<open>popper.updatePosition()\<close> throws.\<close>

definition overlay_show :: "CreateOverlay \<Rightarrow> browser \<Rightarrow> error + CreateOverlay \<times> browser" where
  "overlay_show ov b =
     (case updatePosition (CreateOverlay.popper ov) b of
        Inl e \<Rightarrow> Inl e
      | Inr (c, b1) \<Rightarrow>
          let b2 = addEventListener Document ''keydown'' HandleKeyDown b1;
              b3 = addEventListener Document ''click'' HandleDocumentClick b2;
              b4 = (if beforeShow (options ov) then emit BeforeShow b3 else b3);
              b5 = updateOverlayState Open (triggerElement ov) (contentElement ov) b4;
              b6 = onToggleState False ov b5;
              b7 = (if onShow (options ov) then emit OnShow b6 else b6)
          in Inr (ov\<lparr>CreateOverlay.popper := c\<rparr>, b7))"

text \<open>\<^verbatim>\<open>setShowOptions({placement, offsetDistance})\<close>\<close>

definition setShowOptions ::
  "placement \<Rightarrow> real option \<Rightarrow> CreateOverlay \<Rightarrow> browser \<Rightarrow> error + CreateOverlay \<times> browser" where
  "setShowOptions plc off ov b =
     (case setOptions plc off (CreateOverlay.popper ov) b of
        Inl e \<Rightarrow> Inl e
      | Inr (c, b1) \<Rightarrow>
          let b2 = addEventListener Document ''keydown'' HandleKeyDown b1;
              b3 = addEventListener Document ''click'' HandleDocumentClick b2;
              b4 = (if beforeShow (options ov) then emit BeforeShow b3 else b3);
              b5 = updateOverlayState Open (triggerElement ov) (contentElement ov) b4;
              b6 = onToggleState False ov b5;
              b7 = (if onShow (options ov) then emit OnShow b6 else b6)
          in Inr (ov\<lparr>CreateOverlay.popper := c\<rparr>, b7))"

text \<open>
  \<^verbatim>\<open>setPopperOptions({placement, offsetDistance})\<close>: \<^verbatim>\<open>offsetDistance || this.offsetDistance\<close>
  is the overlay's own offset when the argument is absent or 0.
\<close>

definition setPopperOptions ::
  "placement \<Rightarrow> real option \<Rightarrow> CreateOverlay \<Rightarrow> browser \<Rightarrow> error + CreateOverlay \<times> browser" where
  "setPopperOptions plc off ov b =
     (case setOptions plc
             (Some (case off of
                      Some v \<Rightarrow> if v \<noteq> 0 then v else CreateOverlay.offsetDistance ov
                    | None \<Rightarrow> CreateOverlay.offsetDistance ov))
             (CreateOverlay.popper ov) b of
        Inl e \<Rightarrow> Inl e
      | Inr (c, b1) \<Rightarrow> Inr (ov\<lparr>CreateOverlay.popper := c\<rparr>, b1))"

text \<open>
  \<^verbatim>\<open>handleDocumentClick(event)\<close>, with \<open>tgt\<close> for \<^verbatim>\<open>event.target\<close>; the four branches
  are those of the source, in its order.
\<close>

definition handleDocumentClick :: "element \<Rightarrow> CreateOverlay \<Rightarrow> browser \<Rightarrow> CreateOverlay \<times> browser" where
  "handleDocumentClick tgt ov b =
     (if getAttribute (contentElement ov) ''data-state'' b = Some ''open'' then
        (if \<not> contains b (triggerElement ov) tgt \<and>
            \<not> CreateOverlay.preventFromCloseInside ov \<and>
            \<not> CreateOverlay.preventFromCloseOutside ov
         then overlay_hide ov b
         else if \<not> contains b (triggerElement ov) tgt \<and>
                 \<not> contains b (contentElement ov) tgt \<and>
                 \<not> CreateOverlay.preventFromCloseOutside ov
         then overlay_hide ov b
         else if \<not> contains b (triggerElement ov) tgt \<and>
                 \<not> contains b (contentElement ov) tgt \<and>
                 \<not> CreateOverlay.preventFromCloseOutside ov
         then overlay_hide ov b
         else if \<not> contains b (triggerElement ov) tgt \<and>
                 contains b (contentElement ov) tgt \<and>
                 \<not> CreateOverlay.preventFromCloseInside ov
         then overlay_hide ov b
         else (ov, b))
      else (ov, b))"

text \<open>\<^verbatim>\<open>handleKeyDown(event)\<close>, with \<open>key\<close> for \<^verbatim>\<open>event.key\<close>.\<close>

definition handleKeyDown :: "string \<Rightarrow> CreateOverlay \<Rightarrow> browser \<Rightarrow> CreateOverlay \<times> browser" where
  "handleKeyDown key ov b =
     (let b1 = emit PreventDefault b
      in if CreateOverlay.triggerStrategy ov \<noteq> Hover \<and> key = ''Escape'' then
           (if getAttribute (contentElement ov) ''data-state'' b1 = Some ''open'' then
              (if \<not> CreateOverlay.preventFromCloseOutside ov then overlay_hide ov b1
               else (ov, b1))
            else (ov, b1))
         else (ov, b1))"

definition addEventOnMouseEnter :: "CreateOverlay \<Rightarrow> browser \<Rightarrow> browser" where
  "addEventOnMouseEnter ov b =
     addEventListener (Node (contentElement ov)) ''mouseleave'' HideOnMouseLeave
       (addEventListener (Node (triggerElement ov)) ''mouseleave'' HideOnMouseLeaseTrigger b)"

text \<open>
  \<^verbatim>\<open>toggleStateOnClick\<close>: \<^verbatim>\<open>dataset.state || "close"\<close> reads the attribute
  \<^verbatim>\<open>data-state\<close>; an absent or empty attribute counts as \<^verbatim>\<open>"close"\<close>.
\<close>

definition toggleStateOnClick :: "CreateOverlay \<Rightarrow> browser \<Rightarrow> error + CreateOverlay \<times> browser" where
  "toggleStateOnClick ov b =
     (let state = (case getAttribute (contentElement ov) ''data-state'' b of
                     None \<Rightarrow> ''close''
                   | Some s \<Rightarrow> if s \<noteq> [] then s else ''close'')
      in if state = ''close'' then
           (case overlay_show ov b of
              Inl e \<Rightarrow> Inl e
            | Inr (ov1, b1) \<Rightarrow>
                Inr (ov1, if CreateOverlay.triggerStrategy ov1 = Hover
                          then addEventOnMouseEnter ov1 b1 else b1))
         else Inr (overlay_hide ov b))"

definition showOnMouseEnter :: "CreateOverlay \<Rightarrow> browser \<Rightarrow> error + CreateOverlay \<times> browser" where
  "showOnMouseEnter ov b =
     (case overlay_show ov b of
        Inl e \<Rightarrow> Inl e
      | Inr (ov1, b1) \<Rightarrow> Inr (ov1, addEventOnMouseEnter ov1 b1))"

text \<open>
  The bodies of the two 150 ms timers that \<^verbatim>\<open>hideOnMouseLeaseTrigger\<close> and
  \<^verbatim>\<open>hideOnMouseLeave\<close> start, as they run when the timer fires.
\<close>

definition hideOnMouseLeaseTrigger_timeout :: "CreateOverlay \<Rightarrow> browser \<Rightarrow> CreateOverlay \<times> browser" where
  "hideOnMouseLeaseTrigger_timeout ov b =
     (if \<not> hover b (contentElement ov) then overlay_hide ov b else (ov, b))"

definition hideOnMouseLeave_timeout :: "CreateOverlay \<Rightarrow> browser \<Rightarrow> CreateOverlay \<times> browser" where
  "hideOnMouseLeave_timeout ov b =
     (if \<not> hover b (triggerElement ov) then overlay_hide ov b else (ov, b))"

text \<open>\<^verbatim>\<open>initInstance()\<close>\<close>

definition initInstance :: "CreateOverlay \<Rightarrow> browser \<Rightarrow> error + CreateOverlay \<times> browser" where
  "initInstance ov b =
     (let b1 = updateOverlayState (CreateOverlay.defaultState ov)
                 (triggerElement ov) (contentElement ov) b
      in case (if CreateOverlay.defaultState ov = Open then overlay_show ov b1
               else Inr (ov, updateOverlayState Close (triggerElement ov) (contentElement ov) b1)) of
           Inl e \<Rightarrow> Inl e
         | Inr (ov1, b2) \<Rightarrow>
             let b3 = addEventListener (Node (triggerElement ov1)) ''click'' ToggleStateOnClick b2
             in Inr (ov1,
                     if CreateOverlay.triggerStrategy ov1 = Hover
                     then addEventListener (Node (triggerElement ov1)) ''mouseenter''
                            ShowOnMouseEnter b3
                     else b3))"

text \<open>
  \<^verbatim>\<open>constructor({trigger, content, options})\<close>. \<^verbatim>\<open>a || d\<close> on an optional property takes
  the default \<open>d\<close> when the property is absent or falsy (\<^verbatim>\<open>false\<close>, 0).
\<close>

definition CreateOverlay_constructor ::
  "js_value \<Rightarrow> js_value \<Rightarrow> OverlayOptions \<Rightarrow> browser \<Rightarrow> error + CreateOverlay \<times> browser" where
  "CreateOverlay_constructor trigger content opts b =
     (let contentV = getElement content b;
          triggerV = getElement trigger b
      in case triggerV of
           JElement t \<Rightarrow>
             (case contentV of
                JElement ct \<Rightarrow>
                  (let strat = (case OverlayOptions.triggerStrategy opts of
                                  None \<Rightarrow> Click | Some s \<Rightarrow> s);
                       plc = (case OverlayOptions.placement opts of
                                None \<Rightarrow> Placement Bottom None | Some p \<Rightarrow> p);
                       off = (case OverlayOptions.offsetDistance opts of
                                None \<Rightarrow> 6 | Some v \<Rightarrow> if v \<noteq> 0 then v else 6);
                       pOut = (case OverlayOptions.preventFromCloseOutside opts of
                                 None \<Rightarrow> False | Some f \<Rightarrow> f);
                       pIn = (case OverlayOptions.preventCloseFromInside opts of
                                None \<Rightarrow> False | Some f \<Rightarrow> f);
                       dflt = (case OverlayOptions.defaultState opts of
                                 None \<Rightarrow> Close | Some s \<Rightarrow> s);
                       ee = OverlayOptions.popper opts
                   in case CreatePopper_constructor (JElement t) (JElement ct)
                             \<lparr>PopperOptions.offsetDistance = JNum off,
                              PopperOptions.placement = Some plc,
                              PopperOptions.eventEffect = ee,
                              PopperOptions.onUpdate = False\<rparr> b of
                        Inl e \<Rightarrow> Inl e
                      | Inr (c, b1) \<Rightarrow>
                          initInstance
                            \<lparr>triggerElement = t,
                             contentElement = ct,
                             triggerStrategy = strat,
                             placement = plc,
                             offsetDistance = off,
                             preventFromCloseOutside = pOut,
                             preventFromCloseInside = pIn,
                             options = opts,
                             defaultState = dflt,
                             popper = c,
                             eventEffect = ee\<rparr> b1)
              | _ \<Rightarrow> Inl InvalidContentElement)
         | _ \<Rightarrow> Inl InvalidTriggerElement)"

text \<open>\<^verbatim>\<open>cleanup()\<close>\<close>

definition cleanup :: "CreateOverlay \<Rightarrow> browser \<Rightarrow> browser" where
  "cleanup ov b =
     (let b1 = removeEventListener (Node (triggerElement ov)) ''click'' ToggleStateOnClick b
      in if CreateOverlay.triggerStrategy ov = Hover
         then removeEventListener (Node (triggerElement ov)) ''mouseenter'' ShowOnMouseEnter b1
         else b1)"

text \<open>
  The browser dispatches a \<^verbatim>\<open>click\<close> or a \<^verbatim>\<open>keydown\<close> to the document: the overlay's
  listener runs if it is registered.
\<close>

definition document_click :: "element \<Rightarrow> CreateOverlay \<Rightarrow> browser \<Rightarrow> CreateOverlay \<times> browser" where
  "document_click tgt ov b =
     (if (Document, ''click'', HandleDocumentClick) \<in> set (listeners b)
      then handleDocumentClick tgt ov b else (ov, b))"

definition document_keydown :: "string \<Rightarrow> CreateOverlay \<Rightarrow> browser \<Rightarrow> CreateOverlay \<times> browser" where
  "document_keydown key ov b =
     (if (Document, ''keydown'', HandleKeyDown) \<in> set (listeners b)
      then handleKeyDown key ov b else (ov, b))"

subsection \<open>Notions used in the statements\<close>

text \<open>
  The coordinate that \<^verbatim>\<open>initPlacement\<close> hands to the style properties, for a given
  placement and offset: the resolver applied to the current layout of the two elements
  and the current viewport.
\<close>

definition coordinateFor :: "placement \<Rightarrow> real \<Rightarrow> CreatePopper \<Rightarrow> browser \<Rightarrow> Coordinate" where
  "coordinateFor plc off c b =
     determinePosition
       \<lparr>PositioningContext.placement = plc,
        PositioningContext.refWidth = width (boundingClientRect b (reference c)),
        PositioningContext.refTop = top (boundingClientRect b (reference c)),
        PositioningContext.refLeft = left (boundingClientRect b (reference c)),
        PositioningContext.popperWidth = width (boundingClientRect b (CreatePopper.popper c)),
        PositioningContext.refHeight = height (boundingClientRect b (reference c)),
        PositioningContext.popperHeight = height (boundingClientRect b (CreatePopper.popper c)),
        PositioningContext.windowHeight = innerHeight b,
        PositioningContext.windowWidth = innerWidth b,
        PositioningContext.offsetDistance = off\<rparr>"

text \<open>The calls one run of \<^verbatim>\<open>initPlacement\<close> makes, in order.\<close>

definition placementEffects :: "placement \<Rightarrow> real \<Rightarrow> CreatePopper \<Rightarrow> browser \<Rightarrow> effect list" where
  "placementEffects plc off c b =
     [SetProperty (CreatePopper.popper c) placementX EmptyString,
      SetProperty (CreatePopper.popper c) placementY EmptyString] @
     (if reference c = CreatePopper.popper c then [GetBoundingClientRect (CreatePopper.popper c)]
      else [GetBoundingClientRect (CreatePopper.popper c), GetBoundingClientRect (reference c)]) @
     [SetProperty (CreatePopper.popper c) placementX (Px (x (coordinateFor plc off c b))),
      SetProperty (CreatePopper.popper c) placementY (Px (y (coordinateFor plc off c b)))] @
     (if CreatePopper.onUpdate c
      then [OnUpdate (x (coordinateFor plc off c b)) (y (coordinateFor plc off c b)) plc]
      else [])"

text \<open>
  The window listeners one run of \<^verbatim>\<open>attachWindowEvent\<close> leaves registered, and the
  calls it makes.
\<close>

definition attached :: "CreatePopper \<Rightarrow> listener list \<Rightarrow> listener list" where
  "attached c ls =
     (let ls1 = (if \<not> CreatePopper.disableOnResize c
                 then appendListener (Window, ''resize'', InitPositionate) ls else ls)
      in if \<not> CreatePopper.disableOnScroll c
         then appendListener (Window, ''scroll'', InitPositionate) ls1 else ls1)"

definition attachEffects :: "CreatePopper \<Rightarrow> effect list" where
  "attachEffects c =
     (if \<not> CreatePopper.disableOnResize c
      then [AddEventListener Window ''resize'' InitPositionate] else []) @
     (if \<not> CreatePopper.disableOnScroll c
      then [AddEventListener Window ''scroll'' InitPositionate] else [])"

text \<open>
  The window listeners one run of \<^verbatim>\<open>cleanEvents\<close> leaves registered, and the calls it
  makes.
\<close>

definition cleaned :: "CreatePopper \<Rightarrow> listener list \<Rightarrow> listener list" where
  "cleaned c ls =
     (let ls1 = (if \<not> CreatePopper.disableOnResize c
                 then remove1 (Window, ''resize'', InitPositionate) ls else ls)
      in if \<not> CreatePopper.disableOnScroll c
         then remove1 (Window, ''scroll'', InitPositionate) ls1 else ls1)"

definition cleanEffects :: "CreatePopper \<Rightarrow> effect list" where
  "cleanEffects c =
     (if \<not> CreatePopper.disableOnResize c
      then [RemoveEventListener Window ''resize'' InitPositionate] else []) @
     (if \<not> CreatePopper.disableOnScroll c
      then [RemoveEventListener Window ''scroll'' InitPositionate] else [])"

text \<open>
  What holds of the window listeners of a controller between calls: none is registered
  twice, and none is registered for an event the controller has disabled.
\<close>

definition windowListenersOk :: "CreatePopper \<Rightarrow> browser \<Rightarrow> bool" where
  "windowListenersOk c b \<longleftrightarrow>
     distinct (listeners b) \<and>
     (CreatePopper.disableOnResize c \<longrightarrow>
        (Window, ''resize'', InitPositionate) \<notin> set (listeners b)) \<and>
     (CreatePopper.disableOnScroll c \<longrightarrow>
        (Window, ''scroll'', InitPositionate) \<notin> set (listeners b))"

text \<open>
  The calls \<^verbatim>\<open>hide\<close> makes before it waits for the transition, and the calls of the
  callback it hands to \<^verbatim>\<open>afterTransition\<close>, in order.
\<close>

definition hideEffects :: "CreateOverlay \<Rightarrow> effect list" where
  "hideEffects ov =
     (if beforeHide (options ov) then [BeforeHide] else []) @
     [SetAttribute (contentElement ov) ''data-state'' ''close'',
      SetAttribute (triggerElement ov) ''aria-expanded'' ''false''] @
     (if CreateOverlay.triggerStrategy ov = Click
      then [RemoveEventListener Document ''click'' HandleDocumentClick] else []) @
     [RemoveEventListener Document ''keydown'' HandleKeyDown] @
     (if CreateOverlay.triggerStrategy ov = Hover
      then [RemoveEventListener (Node (triggerElement ov)) ''mouseleave'' HideOnMouseLeaseTrigger,
            RemoveEventListener (Node (contentElement ov)) ''mouseleave'' HideOnMouseLeave]
      else [])"

definition teardownEffects :: "CreateOverlay \<Rightarrow> effect list" where
  "teardownEffects ov =
     (if onToggle (options ov) then [OnToggle True] else []) @
     [SetProperty (CreatePopper.popper (CreateOverlay.popper ov)) placementX EmptyString,
      SetProperty (CreatePopper.popper (CreateOverlay.popper ov)) placementY EmptyString] @
     (if isEventRegistrer (CreateOverlay.popper ov)
      then cleanEffects (CreateOverlay.popper ov) else []) @
     (if onHide (options ov) then [OnHide] else [])"

text \<open>The document and hover listeners \<^verbatim>\<open>hide\<close> leaves registered.\<close>

definition hideListeners :: "CreateOverlay \<Rightarrow> listener list \<Rightarrow> listener list" where
  "hideListeners ov ls =
     (let ls1 = (if CreateOverlay.triggerStrategy ov = Click
                 then remove1 (Document, ''click'', HandleDocumentClick) ls else ls);
          ls2 = remove1 (Document, ''keydown'', HandleKeyDown) ls1
      in if CreateOverlay.triggerStrategy ov = Hover
         then remove1 (Node (contentElement ov), ''mouseleave'', HideOnMouseLeave)
                (remove1 (Node (triggerElement ov), ''mouseleave'', HideOnMouseLeaseTrigger) ls2)
         else ls2)"

text \<open>
  The attributes after \<^verbatim>\<open>updateOverlayState\<close>: \<^verbatim>\<open>data-state\<close> on the content, then
  \<^verbatim>\<open>aria-expanded\<close> on the trigger.
\<close>

definition stateAttributes ::
  "overlay_state \<Rightarrow> element \<Rightarrow> element \<Rightarrow> (element \<Rightarrow> string \<Rightarrow> string option) \<Rightarrow>
   (element \<Rightarrow> string \<Rightarrow> string option)" where
  "stateAttributes state trigger pop attrs =
     (let attrs1 = attrs(pop := (attrs pop)(''data-state'' \<mapsto> stateString state))
      in attrs1(trigger := (attrs1 trigger)
           (''aria-expanded'' \<mapsto> (if state = Open then ''true'' else ''false''))))"

text \<open>
  The two attributes agree: \<^verbatim>\<open>data-state\<close> of the content is \<^verbatim>\<open>"open"\<close> and
  \<^verbatim>\<open>aria-expanded\<close> of the trigger is \<^verbatim>\<open>"true"\<close>, or they are \<^verbatim>\<open>"close"\<close> and
  \<^verbatim>\<open>"false"\<close>.
\<close>

definition attributesAgree :: "CreateOverlay \<Rightarrow> browser \<Rightarrow> bool" where
  "attributesAgree ov b \<longleftrightarrow>
     (getAttribute (contentElement ov) ''data-state'' b = Some ''open'' \<and>
      getAttribute (triggerElement ov) ''aria-expanded'' b = Some ''true'') \<or>
     (getAttribute (contentElement ov) ''data-state'' b = Some ''close'' \<and>
      getAttribute (triggerElement ov) ''aria-expanded'' b = Some ''false'')"

subsection \<open>Concrete states\<close>

text \<open>
  A page with a reference element 1 and a popper element 2, laid out as in the tests of
  the dimension reader: the reference at (10, 20) measuring 100 by 50, the popper
  measuring 60 by 30, in a 1000 by 1000 viewport. Nothing is styled and no listener is
  registered.
\<close>

definition page_rect :: "element \<Rightarrow> DOMRect" where
  "page_rect el =
     (if el = 1 then \<lparr>left = 10, top = 20, right = 110, width = 100, height = 50\<rparr>
      else \<lparr>left = 0, top = 0, right = 60, width = 60, height = 30\<rparr>)"

definition page :: browser where
  "page =
     \<lparr>boundingClientRect = page_rect,
      innerWidth = 1000,
      innerHeight = 1000,
      contains = (\<lambda>outer inner. outer = inner),
      hover = (\<lambda>el. False),
      querySelector = (\<lambda>sel. None),
      transitionRunning = (\<lambda>el. True),
      style = (\<lambda>el name. EmptyString),
      attributes = (\<lambda>el name. None),
      listeners = [],
      afterTransitionQueue = [],
      effects = []\<rparr>"

text \<open>
  A controller for the two elements of \<open>page\<close>, as the constructor builds it for the
  options \<^verbatim>\<open>{placement: "bottom", onUpdate}\<close>.
\<close>

definition demo_controller :: CreatePopper where
  "demo_controller =
     \<lparr>reference = 1, popper = 2, offsetDistance = JNum 0,
      placement = Placement Bottom None, disableOnResize = False,
      disableOnScroll = False, onUpdate = True, isEventRegistrer = False\<rparr>"

text \<open>
  An overlay on the same page: element 1 is the trigger, element 2 the content, the
  strategy is \<^verbatim>\<open>click\<close>, every callback is supplied, and the popper controller has
  registered its window listeners.
\<close>

definition demo_options :: OverlayOptions where
  "demo_options =
     \<lparr>OverlayOptions.defaultState = None,
      OverlayOptions.preventFromCloseOutside = None,
      OverlayOptions.preventCloseFromInside = None,
      OverlayOptions.placement = None,
      OverlayOptions.offsetDistance = None,
      OverlayOptions.triggerStrategy = None,
      OverlayOptions.popper = None,
      beforeShow = True, beforeHide = True, onShow = True, onHide = True, onToggle = True\<rparr>"

definition demo_overlay :: CreateOverlay where
  "demo_overlay =
     \<lparr>triggerElement = 1,
      contentElement = 2,
      triggerStrategy = Click,
      placement = Placement Bottom None,
      offsetDistance = 6,
      preventFromCloseOutside = False,
      preventFromCloseInside = False,
      options = demo_options,
      defaultState = Close,
      popper = demo_controller\<lparr>CreatePopper.offsetDistance := JNum 6,
                 CreatePopper.onUpdate := False, isEventRegistrer := True\<rparr>,
      eventEffect = None\<rparr>"

text \<open>
  The page while that overlay is open: the attributes say so, and the document and window
  listeners of \<^verbatim>\<open>show\<close> are registered.
\<close>

definition open_page :: browser where
  "open_page =
     page\<lparr>attributes := (\<lambda>el name.
              if el = 2 \<and> name = ''data-state'' then Some ''open''
              else if el = 1 \<and> name = ''aria-expanded'' then Some ''true''
              else None),
          listeners := [(Window, ''resize'', InitPositionate),
                        (Window, ''scroll'', InitPositionate),
                        (Document, ''keydown'', HandleKeyDown),
                        (Document, ''click'', HandleDocumentClick),
                        (Node 1, ''click'', ToggleStateOnClick)]\<rparr>"

section \<open>Properties\<close>

subsection \<open>Placement resolver\<close>

lemma clip_inside: "0 \<le> v \<Longrightarrow> v \<le> e - p \<Longrightarrow> clip v e p = v"
  by (simp add: clip_def)

lemma clip_bounds: "p \<le> e \<Longrightarrow> 0 \<le> clip v e p \<and> clip v e p \<le> e - p"
  by (simp add: clip_def)

lemma clip_oversize: "e < p \<Longrightarrow> clip v e p = 0"
  by (simp add: clip_def)


text \<open>
  Claim C1. Whenever the unclipped coordinate of a positioning context already lies in the
  clipping ranges, \<open>determinePosition\<close> returns exactly the formulas of the
  specification: for \<open>top\<close>/\<open>bottom\<close> the cross axis is \<open>x\<close> and the primary axis is
  \<open>y\<close>, for \<open>left\<close>/\<open>right\<close> the other way round; alignment \<open>start\<close>, \<open>middle\<close> (also
  when the suffix is omitted) and \<open>end\<close> select the cross-axis formula. The statement
  covers every side and every alignment suffix, hence all placement tokens.
\<close>

theorem determinePosition_in_range_exact:
  assumes "PositioningContext.placement ctx = Placement s a"
    and "cx = (case a of
                 Some Start \<Rightarrow> refLeft ctx
               | Some End \<Rightarrow> refLeft ctx + refWidth ctx - popperWidth ctx
               | _ \<Rightarrow> refLeft ctx + refWidth ctx / 2 - popperWidth ctx / 2)"
    and "cy = (case a of
                 Some Start \<Rightarrow> refTop ctx
               | Some End \<Rightarrow> refTop ctx + refHeight ctx - popperHeight ctx
               | _ \<Rightarrow> refTop ctx + refHeight ctx / 2 - popperHeight ctx / 2)"
    and "ex = (case s of
                 Top \<Rightarrow> cx
               | Bottom \<Rightarrow> cx
               | Left \<Rightarrow> refLeft ctx - popperWidth ctx - PositioningContext.offsetDistance ctx
               | Right \<Rightarrow> refLeft ctx + refWidth ctx + PositioningContext.offsetDistance ctx)"
    and "ey = (case s of
                 Top \<Rightarrow> refTop ctx - popperHeight ctx - PositioningContext.offsetDistance ctx
               | Bottom \<Rightarrow> refTop ctx + refHeight ctx + PositioningContext.offsetDistance ctx
               | Left \<Rightarrow> cy
               | Right \<Rightarrow> cy)"
    and "0 \<le> ex" and "ex \<le> windowWidth ctx - popperWidth ctx"
    and "0 \<le> ey" and "ey \<le> windowHeight ctx - popperHeight ctx"
  shows "determinePosition ctx = \<lparr>x = ex, y = ey\<rparr>"
proof -
  have u: "unclipped s (alignOf a) ctx = \<lparr>x = ex, y = ey\<rparr>"
  proof (cases a)
    case None
    with assms(2-5) show ?thesis by (cases s) simp_all
  next
    case (Some al)
    with assms(2-5) show ?thesis by (cases s; cases al) simp_all
  qed
  have "clip ex (windowWidth ctx) (popperWidth ctx) = ex"
    using assms(6,7) by (rule clip_inside)
  moreover have "clip ey (windowHeight ctx) (popperHeight ctx) = ey"
    using assms(8,9) by (rule clip_inside)
  ultimately show ?thesis
    using assms(1) u by (simp add: determinePosition_def)
qed

text \<open>
  The second scenario of the specification: a 100 by 100 reference at (450, 450) in a
  1000 by 1000 viewport, a 50 by 50 popper, placement \<open>top\<close>, offset 10.
\<close>

theorem determinePosition_in_range_exact_witness:
  "determinePosition
     \<lparr>PositioningContext.placement = Placement Top None, refWidth = 100, refTop = 450, refLeft = 450,
      popperWidth = 50, refHeight = 100, popperHeight = 50,
      windowHeight = 1000, windowWidth = 1000, PositioningContext.offsetDistance = 10\<rparr> = \<lparr>x = 475, y = 390\<rparr>"
  by (rule determinePosition_in_range_exact
        [where s = Top and a = None and cx = 475 and cy = 475]) simp_all

text \<open>
  Claim C2. Each axis is clipped on its own: when the popper fits the viewport on an axis,
  the coordinate of that axis lies in \<open>[0, viewportExtent - popperExtent]\<close>; when the
  popper exceeds the viewport on an axis, the coordinate of that axis is exactly 0.
\<close>

theorem determinePosition_clipped:
  "(popperWidth ctx \<le> windowWidth ctx \<longrightarrow>
      0 \<le> x (determinePosition ctx) \<and>
      x (determinePosition ctx) \<le> windowWidth ctx - popperWidth ctx) \<and>
   (popperHeight ctx \<le> windowHeight ctx \<longrightarrow>
      0 \<le> y (determinePosition ctx) \<and>
      y (determinePosition ctx) \<le> windowHeight ctx - popperHeight ctx) \<and>
   (windowWidth ctx < popperWidth ctx \<longrightarrow> x (determinePosition ctx) = 0) \<and>
   (windowHeight ctx < popperHeight ctx \<longrightarrow> y (determinePosition ctx) = 0)"
proof (cases "PositioningContext.placement ctx")
  case (Placement s a)
  then show ?thesis
    using clip_bounds clip_oversize
    by (simp add: determinePosition_def Let_def)
qed

text \<open>
  Two clipping cases of the test suite: a popper pushed against the bottom edge, and a
  popper taller than the viewport.
\<close>

theorem determinePosition_clipped_witness:
  "0 \<le> x (determinePosition
     \<lparr>PositioningContext.placement = Placement Right None, refWidth = 100, refTop = 450, refLeft = 895,
      popperWidth = 20, refHeight = 100, popperHeight = 1100,
      windowHeight = 1000, windowWidth = 1000, PositioningContext.offsetDistance = 0\<rparr>) \<and>
   x (determinePosition
     \<lparr>PositioningContext.placement = Placement Right None, refWidth = 100, refTop = 450, refLeft = 895,
      popperWidth = 20, refHeight = 100, popperHeight = 1100,
      windowHeight = 1000, windowWidth = 1000, PositioningContext.offsetDistance = 0\<rparr>) \<le> 1000 - 20 \<and>
   y (determinePosition
     \<lparr>PositioningContext.placement = Placement Right None, refWidth = 100, refTop = 450, refLeft = 895,
      popperWidth = 20, refHeight = 100, popperHeight = 1100,
      windowHeight = 1000, windowWidth = 1000, PositioningContext.offsetDistance = 0\<rparr>) = 0"
proof -
  let ?c = "\<lparr>PositioningContext.placement = Placement Right None, refWidth = 100, refTop = 450,
      refLeft = 895, popperWidth = 20, refHeight = 100, popperHeight = 1100,
      windowHeight = 1000, windowWidth = 1000, PositioningContext.offsetDistance = 0\<rparr>"
  have fits: "popperWidth ?c \<le> windowWidth ?c" by simp
  have exceeds: "windowHeight ?c < popperHeight ?c" by simp
  have ww: "windowWidth ?c - popperWidth ?c = 1000 - 20" by simp
  from determinePosition_clipped [of ?c] fits exceeds
  have "0 \<le> x (determinePosition ?c) \<and>
        x (determinePosition ?c) \<le> windowWidth ?c - popperWidth ?c \<and>
        y (determinePosition ?c) = 0"
    by blast
  then show ?thesis unfolding ww .
qed

subsection \<open>Dimension reader\<close>

lemma getRect_miss:
  "cache el = None \<Longrightarrow>
   getRect el (cache, b) =
     (boundingClientRect b el, cache(el \<mapsto> boundingClientRect b el),
      b\<lparr>effects := effects b @ [GetBoundingClientRect el]\<rparr>)"
  by (simp add: getRect_def getBoundingClientRect_def emit_def)

lemma getRect_hit: "cache el = Some r \<Longrightarrow> getRect el (cache, b) = (r, cache, b)"
  by (simp add: getRect_def)

lemma getDimensions_elements:
  "getDimensions (JElement r) (JElement p) b =
     Inr (\<lparr>Dimensions.popperHeight = height (boundingClientRect b p),
           Dimensions.popperWidth = width (boundingClientRect b p),
           Dimensions.refHeight = height (boundingClientRect b r),
           Dimensions.refWidth = width (boundingClientRect b r),
           Dimensions.refLeft = left (boundingClientRect b r),
           Dimensions.refTop = top (boundingClientRect b r),
           Dimensions.refRight = right (boundingClientRect b r)\<rparr>,
          b\<lparr>effects := effects b @
             (if r = p then [GetBoundingClientRect p]
              else [GetBoundingClientRect p, GetBoundingClientRect r])\<rparr>)"
  by (simp add: getDimensions_def getRect_def getBoundingClientRect_def emit_def)

text \<open>
  Claim C7. For two elements \<open>r\<close> (reference) and \<open>p\<close> (popper), \<open>getDimensions\<close>
  returns the flat record read off their bounding rectangles, with \<open>refRight\<close> the right
  edge of the reference's rectangle, which is \<open>refLeft + refWidth\<close> for a rectangle whose
  right edge is its left edge plus its width. One call measures each distinct element once
  (a shared element once in all), and changes nothing else; a second call measures again,
  because the memo of the first is gone.
\<close>

theorem getDimensions_measures_once:
  "let refRect = boundingClientRect b r;
       popperRect = boundingClientRect b p;
       measured = (if r = p then [GetBoundingClientRect p]
                   else [GetBoundingClientRect p, GetBoundingClientRect r]);
       dims = \<lparr>Dimensions.popperHeight = height popperRect,
               Dimensions.popperWidth = width popperRect,
               Dimensions.refHeight = height refRect,
               Dimensions.refWidth = width refRect,
               Dimensions.refLeft = left refRect,
               Dimensions.refTop = top refRect,
               Dimensions.refRight = right refRect\<rparr>;
       b1 = b\<lparr>effects := effects b @ measured\<rparr>;
       b2 = b\<lparr>effects := effects b @ measured @ measured\<rparr>
   in getDimensions (JElement r) (JElement p) b = Inr (dims, b1) \<and>
      getDimensions (JElement r) (JElement p) b1 = Inr (dims, b2) \<and>
      (\<forall>el. length (filter (\<lambda>e. e = GetBoundingClientRect el) measured) \<le> 1) \<and>
      (right refRect = left refRect + width refRect \<longrightarrow>
         Dimensions.refRight dims = Dimensions.refLeft dims + Dimensions.refWidth dims)"
proof (cases "r = p")
  case True
  then show ?thesis
    by (simp add: getDimensions_def getRect_miss getRect_hit Let_def)
next
  case False
  then show ?thesis
    by (simp add: getDimensions_def getRect_miss getRect_hit Let_def)
qed

text \<open>The example of the specification, on the page defined above.\<close>

theorem getDimensions_measures_once_witness:
  "getDimensions (JElement 1) (JElement 2) page =
     Inr (\<lparr>Dimensions.popperHeight = 30, Dimensions.popperWidth = 60,
           Dimensions.refHeight = 50, Dimensions.refWidth = 100,
           Dimensions.refLeft = 10, Dimensions.refTop = 20, Dimensions.refRight = 110\<rparr>,
          page\<lparr>effects := [GetBoundingClientRect 2, GetBoundingClientRect 1]\<rparr>) \<and>
   right (boundingClientRect page 1) =
     left (boundingClientRect page 1) + width (boundingClientRect page 1)"
  using getDimensions_measures_once [of page 1 2]
  by (simp add: Let_def page_def page_rect_def)

subsection \<open>Popper controller\<close>

lemma validateElements_number:
  "CreatePopper.offsetDistance c = JNum n \<Longrightarrow> validateElements c = Inr n"
  by (simp add: validateElements_def)

lemma validateElements_not_number:
  "\<not> typeofNumber (CreatePopper.offsetDistance c) \<Longrightarrow>
   validateElements c = Inl InvalidOffsetDistance"
  by (cases "CreatePopper.offsetDistance c") (simp_all add: validateElements_def)

lemma setInitialStyles_eq:
  "setInitialStyles c b =
     b\<lparr>style := (style b)(CreatePopper.popper c := (style b (CreatePopper.popper c))
          (placementX := EmptyString,
           placementY := EmptyString)),
       effects := effects b @
         [SetProperty (CreatePopper.popper c) placementX EmptyString,
          SetProperty (CreatePopper.popper c) placementY EmptyString]\<rparr>"
  by (simp add: setInitialStyles_def setProperty_def emit_def)

lemma setPopperStyleProperty_eq:
  "setPopperStyleProperty vx vy c b =
     b\<lparr>style := (style b)(CreatePopper.popper c := (style b (CreatePopper.popper c))
          (placementX := Px vx,
           placementY := Px vy)),
       effects := effects b @
         [SetProperty (CreatePopper.popper c) placementX (Px vx),
          SetProperty (CreatePopper.popper c) placementY (Px vy)]\<rparr>"
  by (simp add: setPopperStyleProperty_def setProperty_def emit_def)

lemma placementX_neq_placementY [simp]: "placementX \<noteq> placementY" "placementY \<noteq> placementX"
  by (simp_all add: placementX_def placementY_def)

lemma style_twice:
  "(f(placementX := a, placementY := b))
     (placementX := c, placementY := d) =
   f(placementX := c, placementY := d)"
  by (rule ext) simp

lemma initPlacement_number:
  assumes "CreatePopper.offsetDistance c = JNum n"
  shows "initPlacement plc off c b =
     Inr (b\<lparr>style := (style b)(CreatePopper.popper c := (style b (CreatePopper.popper c))
            (placementX :=
               Px (x (coordinateFor (case plc of Some p \<Rightarrow> p | None \<Rightarrow> CreatePopper.placement c)
                       (case off of Some v \<Rightarrow> if v \<noteq> 0 then v else n | None \<Rightarrow> n) c b)),
             placementY :=
               Px (y (coordinateFor (case plc of Some p \<Rightarrow> p | None \<Rightarrow> CreatePopper.placement c)
                       (case off of Some v \<Rightarrow> if v \<noteq> 0 then v else n | None \<Rightarrow> n) c b)))),
          effects := effects b @
            placementEffects (case plc of Some p \<Rightarrow> p | None \<Rightarrow> CreatePopper.placement c)
              (case off of Some v \<Rightarrow> if v \<noteq> 0 then v else n | None \<Rightarrow> n) c b\<rparr>)"
  unfolding initPlacement_def validateElements_number [OF assms]
  by (simp add: getDimensions_elements setInitialStyles_eq setPopperStyleProperty_eq
        emit_def Let_def coordinateFor_def placementEffects_def style_twice)

lemma appendListener_idem [simp]: "appendListener l (appendListener l ls) = appendListener l ls"
  by (simp add: appendListener_def)

lemma set_appendListener [simp]: "set (appendListener l ls) = insert l (set ls)"
  by (auto simp add: appendListener_def)

lemma appendListener_member: "l \<in> set ls \<Longrightarrow> appendListener l ls = ls"
  by (simp add: appendListener_def)

lemma attached_idem [simp]: "attached c (attached c ls) = attached c ls"
  by (simp add: attached_def Let_def appendListener_member)

lemma attachWindowEvent_eq:
  "attachWindowEvent c b =
     (c\<lparr>isEventRegistrer := True\<rparr>,
      b\<lparr>listeners := attached c (listeners b), effects := effects b @ attachEffects c\<rparr>)"
  by (simp add: attachWindowEvent_def addEventListener_def emit_def attached_def
        attachEffects_def Let_def)

lemma coordinateFor_frame [simp]:
  "coordinateFor plc off (c\<lparr>isEventRegistrer := v\<rparr>) b = coordinateFor plc off c b"
  "coordinateFor plc off c (b\<lparr>style := s\<rparr>) = coordinateFor plc off c b"
  "coordinateFor plc off c (b\<lparr>listeners := ls\<rparr>) = coordinateFor plc off c b"
  "coordinateFor plc off c (b\<lparr>effects := es\<rparr>) = coordinateFor plc off c b"
  by (simp_all add: coordinateFor_def)

lemma placementEffects_frame [simp]:
  "placementEffects plc off (c\<lparr>isEventRegistrer := v\<rparr>) b = placementEffects plc off c b"
  "placementEffects plc off c (b\<lparr>style := s\<rparr>) = placementEffects plc off c b"
  "placementEffects plc off c (b\<lparr>listeners := ls\<rparr>) = placementEffects plc off c b"
  "placementEffects plc off c (b\<lparr>effects := es\<rparr>) = placementEffects plc off c b"
  by (simp_all add: placementEffects_def)

lemma attached_frame [simp]: "attached (c\<lparr>isEventRegistrer := v\<rparr>) ls = attached c ls"
  by (simp add: attached_def)

lemma attachEffects_frame [simp]: "attachEffects (c\<lparr>isEventRegistrer := v\<rparr>) = attachEffects c"
  by (simp add: attachEffects_def)

lemma updatePosition_number:
  assumes "CreatePopper.offsetDistance c = JNum n"
  shows "updatePosition c b =
     Inr (c\<lparr>isEventRegistrer := True\<rparr>,
          b\<lparr>style := (style b)(CreatePopper.popper c := (style b (CreatePopper.popper c))
                (placementX := Px (x (coordinateFor (CreatePopper.placement c) n c b)),
                 placementY := Px (y (coordinateFor (CreatePopper.placement c) n c b)))),
            listeners := attached c (listeners b),
            effects := effects b @ placementEffects (CreatePopper.placement c) n c b @
                       attachEffects c\<rparr>)"
  by (simp add: updatePosition_def initPositionate_def initPlacement_number [OF assms]
        attachWindowEvent_eq)

lemma updatePosition_not_number:
  "\<not> typeofNumber (CreatePopper.offsetDistance c) \<Longrightarrow>
   updatePosition c b = Inl InvalidOffsetDistance"
  by (simp add: updatePosition_def initPositionate_def initPlacement_def
        validateElements_not_number)

lemma typeofNumber_cases: "typeofNumber v \<Longrightarrow> \<exists>n. v = JNum n"
  by (cases v) simp_all


lemma setOptions_keeps_configuration:
  "setOptions plc off c b = Inr (c', b') \<Longrightarrow> c' = c\<lparr>isEventRegistrer := True\<rparr>"
  by (auto simp add: setOptions_def attachWindowEvent_def Let_def split: sum.splits)

lemma demo_coordinate_bottom:
  "coordinateFor (Placement Bottom None) 0 demo_controller page =
     \<lparr>x = 30, y = 70\<rparr>"
  by (simp add: coordinateFor_def demo_controller_def page_def page_rect_def
        determinePosition_def clip_def)

lemma demo_coordinate_top:
  "coordinateFor (Placement Top None) 0 demo_controller page =
     \<lparr>x = 30, y = 0\<rparr>"
  by (simp add: coordinateFor_def demo_controller_def page_def page_rect_def
        determinePosition_def clip_def)

lemma demo_controller_simps [simp]:
  "CreatePopper.offsetDistance demo_controller = JNum 0"
  "CreatePopper.placement demo_controller = Placement Bottom None"
  "CreatePopper.popper demo_controller = 2" "reference demo_controller = 1"
  "\<not> CreatePopper.disableOnResize demo_controller"
  "\<not> CreatePopper.disableOnScroll demo_controller"
  "\<not> isEventRegistrer demo_controller"
  "CreatePopper.onUpdate demo_controller"
  by (simp_all add: demo_controller_def)

lemma demo_updatePosition:
  "updatePosition demo_controller page =
     Inr (demo_controller\<lparr>isEventRegistrer := True\<rparr>,
          page\<lparr>style := (style page)(2 := (style page 2)
                  (placementX := Px 30, placementY := Px 70)),
               listeners := [(Window, ''resize'', InitPositionate),
                             (Window, ''scroll'', InitPositionate)],
               effects := placementEffects (Placement Bottom None) 0 demo_controller page @
                          attachEffects demo_controller\<rparr>)"
proof -
  note c = demo_coordinate_bottom
  have l: "attached demo_controller (listeners page) =
      [(Window, ''resize'', InitPositionate), (Window, ''scroll'', InitPositionate)]"
    by (simp add: attached_def appendListener_def page_def)
  have e: "effects page = []"
    by (simp add: page_def)
  show ?thesis
    by (simp add: updatePosition_number [of demo_controller 0] c l e)
qed

lemma cleaned_frame [simp]: "cleaned (c\<lparr>isEventRegistrer := v\<rparr>) ls = cleaned c ls"
  by (simp add: cleaned_def)

lemma cleanEffects_frame [simp]: "cleanEffects (c\<lparr>isEventRegistrer := v\<rparr>) = cleanEffects c"
  by (simp add: cleanEffects_def)

lemma cleanEvents_eq:
  "cleanEvents c b =
     b\<lparr>listeners := cleaned c (listeners b), effects := effects b @ cleanEffects c\<rparr>"
  by (simp add: cleanEvents_def removeEventListener_def emit_def cleaned_def
        cleanEffects_def Let_def)

lemma setOptions_number:
  assumes "CreatePopper.offsetDistance c = JNum n"
  shows "setOptions plc off c b =
     Inr (c\<lparr>isEventRegistrer := True\<rparr>,
          b\<lparr>style := (style b)(CreatePopper.popper c := (style b (CreatePopper.popper c))
                (placementX := Px (x (coordinateFor plc
                    (case off of Some v \<Rightarrow> if v \<noteq> 0 then v else n | None \<Rightarrow> n) c b)),
                 placementY := Px (y (coordinateFor plc
                    (case off of Some v \<Rightarrow> if v \<noteq> 0 then v else n | None \<Rightarrow> n) c b)))),
            listeners := attached c (if isEventRegistrer c then cleaned c (listeners b)
                                     else listeners b),
            effects := effects b @
              placementEffects plc
                (case off of Some v \<Rightarrow> if v \<noteq> 0 then v else n | None \<Rightarrow> n) c b @
              (if isEventRegistrer c then cleanEffects c else []) @ attachEffects c\<rparr>)"
  by (simp add: setOptions_def initPlacement_number [OF assms] attachWindowEvent_eq
        cleanEvents_eq)

lemma distinct_appendListener:
  "distinct ls \<Longrightarrow> distinct (appendListener l ls)"
  by (simp add: appendListener_def)

lemma initPlacement_not_number:
  "\<not> typeofNumber (CreatePopper.offsetDistance c) \<Longrightarrow>
   initPlacement plc off c b = Inl InvalidOffsetDistance"
  by (simp add: initPlacement_def validateElements_not_number)

lemma setOptions_not_number:
  "\<not> typeofNumber (CreatePopper.offsetDistance c) \<Longrightarrow>
   setOptions plc off c b = Inl InvalidOffsetDistance"
  by (simp add: setOptions_def initPlacement_not_number)

lemma setOptions_listeners:
  assumes "setOptions plc off c b = Inr (c', b')" and "windowListenersOk c b"
  shows "windowListenersOk c' b' \<and>
         ((Window, ''resize'', InitPositionate) \<in> set (listeners b') \<longleftrightarrow>
            \<not> CreatePopper.disableOnResize c) \<and>
         ((Window, ''scroll'', InitPositionate) \<in> set (listeners b') \<longleftrightarrow>
            \<not> CreatePopper.disableOnScroll c)"
proof -
  have "typeofNumber (CreatePopper.offsetDistance c)"
    using assms(1) setOptions_not_number [of c plc off b] by auto
  then obtain n where n: "CreatePopper.offsetDistance c = JNum n"
    using typeofNumber_cases by blast
  have c': "c' = c\<lparr>isEventRegistrer := True\<rparr>"
    using assms(1) by (simp add: setOptions_number [OF n])
  have l': "listeners b' = attached c (if isEventRegistrer c then cleaned c (listeners b)
                                     else listeners b)"
    using assms(1) by (auto simp add: setOptions_number [OF n])
  show ?thesis
    using assms(2) unfolding c' l' windowListenersOk_def attached_def cleaned_def Let_def
    by (auto simp add: appendListener_def)
qed

lemma setOptions_v2_stores_placement:
  assumes "setOptions_v2 plc off c b = Inr (c', b')"
  shows "CreatePopper.placement c' = plc \<and>
         CreatePopper.offsetDistance c' =
           (case off of
              Some v \<Rightarrow> if v \<noteq> 0 then JNum v else CreatePopper.offsetDistance c
            | None \<Rightarrow> CreatePopper.offsetDistance c)"
  using assms
  by (auto simp add: setOptions_v2_def attachWindowEvent_v2_def removeWindowEvents_v2_def
        Let_def split: sum.splits if_splits)

lemma constructor_invalid_reference:
  "\<not> instanceofHTMLElement r \<Longrightarrow>
   CreatePopper_constructor r p opts b = Inl InvalidReferenceElement"
  by (cases r) (simp_all add: CreatePopper_constructor_def Let_def)

lemma constructor_invalid_popper:
  "instanceofHTMLElement r \<Longrightarrow> \<not> instanceofHTMLElement p \<Longrightarrow>
   CreatePopper_constructor r p opts b = Inl InvalidPopperElement"
  by (cases r; cases p) (simp_all add: CreatePopper_constructor_def Let_def)

lemma constructor_invalid_offset:
  "instanceofHTMLElement r \<Longrightarrow> instanceofHTMLElement p \<Longrightarrow>
   truthy (PopperOptions.offsetDistance opts) \<Longrightarrow>
   \<not> typeofNumber (PopperOptions.offsetDistance opts) \<Longrightarrow>
   CreatePopper_constructor r p opts b = Inl InvalidOffsetDistance"
  by (cases r; cases p) (simp_all add: CreatePopper_constructor_def Let_def)

lemma constructor_no_positioning:
  "CreatePopper_constructor r p opts b = Inr (c, b') \<Longrightarrow>
   b' = b \<and> \<not> isEventRegistrer c"
  by (cases r; cases p)
     (auto simp add: CreatePopper_constructor_def Let_def split: if_splits)

subsection \<open>Popper controller: the claims\<close>

text \<open>
  Claim C8. \<open>updatePosition\<close> is idempotent. If a call returns, a second call in the
  unchanged browser returns too, makes the same sequence of calls \<open>es\<close> again (so it
  measures both elements again, and hands \<^verbatim>\<open>onUpdate\<close> the same \<open>x\<close>, \<open>y\<close> and placement,
  which are the values of the two style properties) and changes nothing but the record of
  calls: controller, style properties and listeners are those the first call left.
\<close>

theorem updatePosition_idempotent:
  assumes "updatePosition c b = Inr (c1, b1)"
  shows "\<exists>es vx vy.
           effects b1 = effects b @ es \<and>
           updatePosition c1 b1 = Inr (c1, b1\<lparr>effects := effects b1 @ es\<rparr>) \<and>
           style b1 (CreatePopper.popper c) placementX = Px vx \<and>
           style b1 (CreatePopper.popper c) placementY = Px vy \<and>
           (CreatePopper.onUpdate c \<longrightarrow>
              OnUpdate vx vy (CreatePopper.placement c) \<in> set es) \<and>
           GetBoundingClientRect (reference c) \<in> set es \<and>
           GetBoundingClientRect (CreatePopper.popper c) \<in> set es"
proof -
  have "typeofNumber (CreatePopper.offsetDistance c)"
    using assms updatePosition_not_number [of c b] by auto
  then obtain n where n: "CreatePopper.offsetDistance c = JNum n"
    using typeofNumber_cases by blast
  let ?es = "placementEffects (CreatePopper.placement c) n c b @ attachEffects c"
  let ?pos = "coordinateFor (CreatePopper.placement c) n c b"
  have c1: "c1 = c\<lparr>isEventRegistrer := True\<rparr>"
    using assms by (simp add: updatePosition_number [OF n])
  have b1: "b1 = b\<lparr>style := (style b)(CreatePopper.popper c := (style b (CreatePopper.popper c))
                (placementX := Px (x ?pos), placementY := Px (y ?pos))),
            listeners := attached c (listeners b),
            effects := effects b @ ?es\<rparr>"
    using assms by (simp add: updatePosition_number [OF n])
  have n1: "CreatePopper.offsetDistance c1 = JNum n"
    by (simp add: c1 n)
  have "effects b1 = effects b @ ?es"
    by (simp add: b1)
  moreover have "updatePosition c1 b1 = Inr (c1, b1\<lparr>effects := effects b1 @ ?es\<rparr>)"
    unfolding updatePosition_number [OF n1]
    by (simp add: c1 b1 style_twice)
  moreover have "style b1 (CreatePopper.popper c) placementX = Px (x ?pos)"
    and "style b1 (CreatePopper.popper c) placementY = Px (y ?pos)"
    by (simp_all add: b1)
  moreover have "CreatePopper.onUpdate c \<longrightarrow>
      OnUpdate (x ?pos) (y ?pos) (CreatePopper.placement c) \<in> set ?es"
    by (simp add: placementEffects_def)
  moreover have "GetBoundingClientRect (reference c) \<in> set ?es"
    by (simp add: placementEffects_def)
  moreover have "GetBoundingClientRect (CreatePopper.popper c) \<in> set ?es"
    by (simp add: placementEffects_def)
  ultimately show ?thesis by blast
qed

text \<open>The controller of the demo script, positioned twice on the page defined above.\<close>

theorem updatePosition_idempotent_witness:
  "\<exists>c1 b1 es.
     updatePosition demo_controller page = Inr (c1, b1) \<and>
     effects b1 = effects page @ es \<and>
     updatePosition c1 b1 = Inr (c1, b1\<lparr>effects := effects b1 @ es\<rparr>) \<and>
     style b1 2 placementX = Px 30 \<and> style b1 2 placementY = Px 70 \<and>
     OnUpdate 30 70 (Placement Bottom None) \<in> set es"
proof -
  obtain c1 b1 where first: "updatePosition demo_controller page = Inr (c1, b1)"
    and sx: "style b1 2 placementX = Px 30" and sy: "style b1 2 placementY = Px 70"
    using demo_updatePosition by simp
  from updatePosition_idempotent [OF first] obtain es vx vy where
    "effects b1 = effects page @ es"
    "updatePosition c1 b1 = Inr (c1, b1\<lparr>effects := effects b1 @ es\<rparr>)"
    "style b1 2 placementX = Px vx" "style b1 2 placementY = Px vy"
    "OnUpdate vx vy (Placement Bottom None) \<in> set es"
    by auto
  with first sx sy show ?thesis by auto
qed

text \<open>
  Claim C6. The constructor throws \<open>InvalidReferenceElement\<close> for a reference that is not
  an element, \<open>InvalidPopperElement\<close> for a popper that is not, and \<open>InvalidOffsetDistance\<close>
  for a supplied offset that is truthy and not a number (lemmas
  \<open>constructor_invalid_reference\<close>, \<open>constructor_invalid_popper\<close>,
  \<open>constructor_invalid_offset\<close>), and it positions nothing
  (\<open>constructor_no_positioning\<close>). But its test
  \<^verbatim>\<open>options.offsetDistance && typeof options.offsetDistance !== "number"\<close> lets a supplied
  offset through that is not a number and falsy: with the empty string, construction
  succeeds and stores the string, and it is the first \<open>updatePosition\<close> that throws
  \<open>InvalidOffsetDistance\<close>, from the strict test of \<^verbatim>\<open>validateElements\<close>.
\<close>

theorem constructor_accepts_empty_string_offset:
  "CreatePopper_constructor (JElement 1) (JElement 2)
     (no_options\<lparr>PopperOptions.offsetDistance := JStr ''''\<rparr>) page =
     Inr (\<lparr>reference = 1, popper = 2, offsetDistance = JStr '''',
           placement = Placement Bottom None, disableOnResize = False,
           disableOnScroll = False, onUpdate = False, isEventRegistrer = False\<rparr>, page) \<and>
   updatePosition
     \<lparr>reference = 1, popper = 2, offsetDistance = JStr '''',
      placement = Placement Bottom None, disableOnResize = False,
      disableOnScroll = False, onUpdate = False, isEventRegistrer = False\<rparr> page =
     Inl InvalidOffsetDistance"
  by (simp add: CreatePopper_constructor_def no_options_def DEFAULT_PLACEMENT_def
        updatePosition_not_number)

text \<open>
  Claim C3. \<open>setOptions\<close> of \<^verbatim>\<open>popper.ts\<close> positions the popper with the placement and
  offset it is given and leaves the window listeners registered as the disable flags say
  (lemma \<open>setOptions_listeners\<close>), but it does not store what it is given (lemma
  \<open>setOptions_keeps_configuration\<close>), whereas the second implementation does (lemma
  \<open>setOptions_v2_stores_placement\<close>). On the page defined above: the demo controller,
  built with placement \<open>bottom\<close> and positioned, is given placement \<open>top\<close>, which
  moves the popper to \<open>y = 0\<close>; the stored placement is still \<open>bottom\<close>, and the next
  \<^verbatim>\<open>resize\<close> of the window moves the popper back to \<open>y = 70\<close> and reports \<open>bottom\<close> to
  \<^verbatim>\<open>onUpdate\<close>.
\<close>

theorem setOptions_placement_not_stored:
  "(case updatePosition demo_controller page of
      Inl e \<Rightarrow> False
    | Inr (c1, b1) \<Rightarrow>
        (case setOptions (Placement Top None) None c1 b1 of
           Inl e \<Rightarrow> False
         | Inr (c2, b2) \<Rightarrow>
             style b2 2 placementY = Px 0 \<and>
             CreatePopper.placement c2 = Placement Bottom None \<and>
             (case window_event ''resize'' c2 b2 of
                Inl e \<Rightarrow> False
              | Inr b3 \<Rightarrow>
                  style b3 2 placementY = Px 70 \<and>
                  last (effects b3) = OnUpdate 30 70 (Placement Bottom None))))"
proof -
  let ?c1 = "demo_controller\<lparr>isEventRegistrer := True\<rparr>"
  have n1: "CreatePopper.offsetDistance ?c1 = JNum 0" by simp
  have at: "attached demo_controller (cleaned demo_controller
       [(Window, ''resize'', InitPositionate), (Window, ''scroll'', InitPositionate)]) =
       [(Window, ''resize'', InitPositionate), (Window, ''scroll'', InitPositionate)]"
    by (simp add: attached_def cleaned_def appendListener_def)
  show ?thesis
    unfolding demo_updatePosition
    by (simp add: setOptions_number [OF n1] demo_coordinate_top demo_coordinate_bottom at
          window_event_def initPositionate_def initPlacement_number [OF n1]
          placementEffects_def)
qed

subsection \<open>Overlay controller\<close>

lemma updateOverlayState_eq:
  "updateOverlayState state trigger pop b =
     b\<lparr>attributes := stateAttributes state trigger pop (attributes b),
       effects := effects b @
         [SetAttribute pop ''data-state'' (stateString state),
          SetAttribute trigger ''aria-expanded'' (if state = Open then ''true'' else ''false'')]\<rparr>"
  by (simp add: updateOverlayState_def setAttributes_def emit_def stateAttributes_def Let_def)

lemma stateAttributes_data_state [simp]:
  "stateAttributes state trigger pop attrs pop ''data-state'' = Some (stateString state)"
  by (simp add: stateAttributes_def Let_def)

lemma stateAttributes_aria_expanded [simp]:
  "stateAttributes state trigger pop attrs trigger ''aria-expanded'' =
     Some (if state = Open then ''true'' else ''false'')"
  by (simp add: stateAttributes_def Let_def)

lemma setInitialStyles_frame [simp]:
  "attributes (setInitialStyles c b) = attributes b"
  "listeners (setInitialStyles c b) = listeners b"
  "afterTransitionQueue (setInitialStyles c b) = afterTransitionQueue b"
  "transitionRunning (setInitialStyles c b) = transitionRunning b"
  by (simp_all add: setInitialStyles_eq)

lemma cleanupEvents_eq:
  "cleanupEvents c b =
     (if isEventRegistrer c then c\<lparr>isEventRegistrer := False\<rparr> else c,
      b\<lparr>style := (style b)(CreatePopper.popper c := (style b (CreatePopper.popper c))
            (placementX := EmptyString, placementY := EmptyString)),
        listeners := (if isEventRegistrer c then cleaned c (listeners b) else listeners b),
        effects := effects b @
          [SetProperty (CreatePopper.popper c) placementX EmptyString,
           SetProperty (CreatePopper.popper c) placementY EmptyString] @
          (if isEventRegistrer c then cleanEffects c else [])\<rparr>)"
  by (simp add: cleanupEvents_def setInitialStyles_eq cleanEvents_eq Let_def)

lemma hideCallback_eq:
  "hideCallback ov b =
     (ov\<lparr>CreateOverlay.popper :=
          (if isEventRegistrer (CreateOverlay.popper ov)
           then (CreateOverlay.popper ov)\<lparr>isEventRegistrer := False\<rparr>
           else CreateOverlay.popper ov)\<rparr>,
      b\<lparr>style := (style b)(CreatePopper.popper (CreateOverlay.popper ov) :=
            (style b (CreatePopper.popper (CreateOverlay.popper ov)))
            (placementX := EmptyString, placementY := EmptyString)),
        listeners := (if isEventRegistrer (CreateOverlay.popper ov)
                      then cleaned (CreateOverlay.popper ov) (listeners b) else listeners b),
        effects := effects b @ teardownEffects ov\<rparr>)"
  by (simp add: hideCallback_def onToggleState_def cleanupEvents_eq emit_def
        teardownEffects_def Let_def)

lemma overlay_hide_eq:
  "overlay_hide ov b =
     afterTransition (contentElement ov) ov
       (b\<lparr>attributes := stateAttributes Close (triggerElement ov) (contentElement ov) (attributes b),
          listeners := hideListeners ov (listeners b),
          effects := effects b @ hideEffects ov\<rparr>)"
  by (simp add: overlay_hide_def updateOverlayState_eq removeEventListener_def emit_def
        hideEffects_def hideListeners_def Let_def)

lemma notin_remove1: "distinct ls \<Longrightarrow> l \<notin> set (remove1 l ls)"
  by simp

lemma addEventListener_distinct:
  "distinct (listeners b) \<Longrightarrow> distinct (listeners (addEventListener t ty h b))"
  by (simp add: addEventListener_def emit_def appendListener_def)

lemma removeEventListener_distinct:
  "distinct (listeners b) \<Longrightarrow> distinct (listeners (removeEventListener t ty h b))"
  by (simp add: removeEventListener_def emit_def)

lemma notin_remove1_other: "l \<notin> set ls \<Longrightarrow> l \<notin> set (remove1 k ls)"
  by (meson notin_set_remove1)

lemma distinct_hideListeners: "distinct ls \<Longrightarrow> distinct (hideListeners ov ls)"
  by (simp add: hideListeners_def Let_def)

lemma keydown_notin_hideListeners:
  "distinct ls \<Longrightarrow> (Document, ''keydown'', HandleKeyDown) \<notin> set (hideListeners ov ls)"
  by (auto simp add: hideListeners_def Let_def)

lemma click_notin_hideListeners:
  "distinct ls \<Longrightarrow> CreateOverlay.triggerStrategy ov = Click \<Longrightarrow>
   (Document, ''click'', HandleDocumentClick) \<notin> set (hideListeners ov ls)"
  by (auto simp add: hideListeners_def Let_def)

lemma notin_cleaned: "l \<notin> set ls \<Longrightarrow> l \<notin> set (cleaned c ls)"
  by (auto simp add: cleaned_def Let_def dest: notin_set_remove1)

lemma transitionEnd_single:
  assumes "el \<notin> set q"
  shows "transitionEnd el ov (b\<lparr>afterTransitionQueue := q @ [el]\<rparr>) =
         hideCallback ov (b\<lparr>afterTransitionQueue := q\<rparr>)"
proof -
  have "filter (\<lambda>e. e = el) q = []" and "filter (\<lambda>e. e \<noteq> el) q = q"
    using assms by (induction q) auto
  then show ?thesis
    by (simp add: transitionEnd_def)
qed

text \<open>
  Claim C4. \<open>hide\<close> sets \<^verbatim>\<open>data-state="close"\<close> on the content and
  \<^verbatim>\<open>aria-expanded="false"\<close> on the trigger and detaches the click listener (for the
  click strategy) and the keydown listener at once: these are the calls \<open>immediate\<close>. While
  a transition of the content is running nothing else happens; when it completes, the
  waiting callback makes the calls \<open>deferred\<close>: \<^verbatim>\<open>onToggle({isHidden: true})\<close>, then the
  calls of the popper controller's \<^verbatim>\<open>cleanupEvents\<close> (the two styles reset, the window
  listeners removed), then \<^verbatim>\<open>onHide\<close>. When no transition is running the same calls
  follow \<open>immediate\<close> directly. The document listeners are gone in both cases, given that
  the listener list holds no duplicates, which every list built by
  \<^verbatim>\<open>addEventListener\<close> satisfies.
\<close>

theorem hide_order:
  assumes "distinct (listeners b)"
  shows
    "let immediate =
           (if beforeHide (options ov) then [BeforeHide] else []) @
           [SetAttribute (contentElement ov) ''data-state'' ''close'',
            SetAttribute (triggerElement ov) ''aria-expanded'' ''false''] @
           (if CreateOverlay.triggerStrategy ov = Click
            then [RemoveEventListener Document ''click'' HandleDocumentClick] else []) @
           [RemoveEventListener Document ''keydown'' HandleKeyDown] @
           (if CreateOverlay.triggerStrategy ov = Hover
            then [RemoveEventListener (Node (triggerElement ov)) ''mouseleave''
                    HideOnMouseLeaseTrigger,
                  RemoveEventListener (Node (contentElement ov)) ''mouseleave''
                    HideOnMouseLeave]
            else []);
         deferred =
           (if onToggle (options ov) then [OnToggle True] else []) @
           [SetProperty (CreatePopper.popper (CreateOverlay.popper ov)) placementX EmptyString,
            SetProperty (CreatePopper.popper (CreateOverlay.popper ov)) placementY EmptyString] @
           (if isEventRegistrer (CreateOverlay.popper ov) \<and>
               \<not> CreatePopper.disableOnResize (CreateOverlay.popper ov)
            then [RemoveEventListener Window ''resize'' InitPositionate] else []) @
           (if isEventRegistrer (CreateOverlay.popper ov) \<and>
               \<not> CreatePopper.disableOnScroll (CreateOverlay.popper ov)
            then [RemoveEventListener Window ''scroll'' InitPositionate] else []) @
           (if onHide (options ov) then [OnHide] else [])
     in \<exists>ov1 b1.
          overlay_hide ov b = (ov1, b1) \<and>
          getAttribute (contentElement ov) ''data-state'' b1 = Some ''close'' \<and>
          getAttribute (triggerElement ov) ''aria-expanded'' b1 = Some ''false'' \<and>
          (Document, ''keydown'', HandleKeyDown) \<notin> set (listeners b1) \<and>
          (CreateOverlay.triggerStrategy ov = Click \<longrightarrow>
             (Document, ''click'', HandleDocumentClick) \<notin> set (listeners b1)) \<and>
          (transitionRunning b (contentElement ov) \<longrightarrow>
             ov1 = ov \<and>
             effects b1 = effects b @ immediate \<and>
             (contentElement ov \<notin> set (afterTransitionQueue b) \<longrightarrow>
                effects (snd (transitionEnd (contentElement ov) ov1 b1)) =
                  effects b1 @ deferred)) \<and>
          (\<not> transitionRunning b (contentElement ov) \<longrightarrow>
             effects b1 = effects b @ immediate @ deferred)"
proof -
  let ?b' = "b\<lparr>attributes :=
                 stateAttributes Close (triggerElement ov) (contentElement ov) (attributes b),
               listeners := hideListeners ov (listeners b),
               effects := effects b @ hideEffects ov\<rparr>"
  note k = keydown_notin_hideListeners [OF assms, of ov]
  note c = click_notin_hideListeners [OF assms, of ov]
  show ?thesis
  proof (cases "transitionRunning b (contentElement ov)")
    case True
    then have h: "overlay_hide ov b =
        (ov, ?b'\<lparr>afterTransitionQueue := afterTransitionQueue b @ [contentElement ov]\<rparr>)"
      by (simp add: overlay_hide_eq afterTransition_def)
    have t: "contentElement ov \<notin> set (afterTransitionQueue b) \<Longrightarrow>
        transitionEnd (contentElement ov) ov
          (?b'\<lparr>afterTransitionQueue := afterTransitionQueue b @ [contentElement ov]\<rparr>) =
        hideCallback ov (?b'\<lparr>afterTransitionQueue := afterTransitionQueue b\<rparr>)"
      by (rule transitionEnd_single)
    show ?thesis
      unfolding Let_def h using True k c t
      by (simp add: getAttribute_def hideCallback_eq hideEffects_def teardownEffects_def
            cleanEffects_def)
  next
    case False
    then have h: "overlay_hide ov b = hideCallback ov ?b'"
      by (simp add: overlay_hide_eq afterTransition_def)
    show ?thesis
      unfolding Let_def h hideCallback_eq using False k c
      by (simp add: getAttribute_def hideEffects_def teardownEffects_def cleanEffects_def
            notin_cleaned)
  qed
qed

lemma demo_overlay_simps [simp]:
  "triggerElement demo_overlay = 1" "contentElement demo_overlay = 2"
  "CreateOverlay.triggerStrategy demo_overlay = Click"
  "\<not> CreateOverlay.preventFromCloseOutside demo_overlay"
  "\<not> CreateOverlay.preventFromCloseInside demo_overlay"
  "options demo_overlay = demo_options"
  "CreateOverlay.popper demo_overlay =
     demo_controller\<lparr>CreatePopper.offsetDistance := JNum 6,
       CreatePopper.onUpdate := False, isEventRegistrer := True\<rparr>"
  by (simp_all add: demo_overlay_def)

lemma demo_options_simps [simp]:
  "beforeShow demo_options" "beforeHide demo_options" "onShow demo_options"
  "onHide demo_options" "onToggle demo_options"
  by (simp_all add: demo_options_def)

lemma open_page_simps [simp]:
  "listeners open_page =
     [(Window, ''resize'', InitPositionate), (Window, ''scroll'', InitPositionate),
      (Document, ''keydown'', HandleKeyDown), (Document, ''click'', HandleDocumentClick),
      (Node 1, ''click'', ToggleStateOnClick)]"
  "effects open_page = []" "afterTransitionQueue open_page = []"
  "transitionRunning open_page el" "contains open_page outer inner \<longleftrightarrow> outer = inner"
  "attributes open_page 2 ''data-state'' = Some ''open''"
  "attributes open_page 1 ''aria-expanded'' = Some ''true''"
  by (simp_all add: open_page_def page_def)

text \<open>
  The open demo overlay, hidden while its transition runs, and hidden when no transition
  is running.
\<close>

theorem hide_order_witness:
  "distinct (listeners open_page) \<and>
   (\<exists>ov1 b1.
      overlay_hide demo_overlay open_page = (ov1, b1) \<and>
      getAttribute 2 ''data-state'' b1 = Some ''close'' \<and>
      getAttribute 1 ''aria-expanded'' b1 = Some ''false'' \<and>
      (Document, ''keydown'', HandleKeyDown) \<notin> set (listeners b1) \<and>
      (Document, ''click'', HandleDocumentClick) \<notin> set (listeners b1) \<and>
      effects b1 =
        [BeforeHide, SetAttribute 2 ''data-state'' ''close'',
         SetAttribute 1 ''aria-expanded'' ''false'',
         RemoveEventListener Document ''click'' HandleDocumentClick,
         RemoveEventListener Document ''keydown'' HandleKeyDown] \<and>
      effects (snd (transitionEnd 2 ov1 b1)) =
        effects b1 @
        [OnToggle True, SetProperty 2 placementX EmptyString,
         SetProperty 2 placementY EmptyString,
         RemoveEventListener Window ''resize'' InitPositionate,
         RemoveEventListener Window ''scroll'' InitPositionate, OnHide]) \<and>
   (\<exists>ov2 b2.
      overlay_hide demo_overlay (open_page\<lparr>transitionRunning := \<lambda>el. False\<rparr>) = (ov2, b2) \<and>
      effects b2 =
        [BeforeHide, SetAttribute 2 ''data-state'' ''close'',
         SetAttribute 1 ''aria-expanded'' ''false'',
         RemoveEventListener Document ''click'' HandleDocumentClick,
         RemoveEventListener Document ''keydown'' HandleKeyDown,
         OnToggle True, SetProperty 2 placementX EmptyString,
         SetProperty 2 placementY EmptyString,
         RemoveEventListener Window ''resize'' InitPositionate,
         RemoveEventListener Window ''scroll'' InitPositionate, OnHide])"
proof -
  have d: "distinct (listeners open_page)"
    by simp
  from hide_order [OF d, of demo_overlay] obtain ov1 b1 where
    "overlay_hide demo_overlay open_page = (ov1, b1)"
    "getAttribute 2 ''data-state'' b1 = Some ''close''"
    "getAttribute 1 ''aria-expanded'' b1 = Some ''false''"
    "(Document, ''keydown'', HandleKeyDown) \<notin> set (listeners b1)"
    "(Document, ''click'', HandleDocumentClick) \<notin> set (listeners b1)"
    "effects b1 =
        [BeforeHide, SetAttribute 2 ''data-state'' ''close'',
         SetAttribute 1 ''aria-expanded'' ''false'',
         RemoveEventListener Document ''click'' HandleDocumentClick,
         RemoveEventListener Document ''keydown'' HandleKeyDown]"
    "effects (snd (transitionEnd 2 ov1 b1)) =
        effects b1 @
        [OnToggle True, SetProperty 2 placementX EmptyString,
         SetProperty 2 placementY EmptyString,
         RemoveEventListener Window ''resize'' InitPositionate,
         RemoveEventListener Window ''scroll'' InitPositionate, OnHide]"
    unfolding Let_def by (simp (no_asm_use)) blast
  then have running: "\<exists>ov1 b1.
      overlay_hide demo_overlay open_page = (ov1, b1) \<and>
      getAttribute 2 ''data-state'' b1 = Some ''close'' \<and>
      getAttribute 1 ''aria-expanded'' b1 = Some ''false'' \<and>
      (Document, ''keydown'', HandleKeyDown) \<notin> set (listeners b1) \<and>
      (Document, ''click'', HandleDocumentClick) \<notin> set (listeners b1) \<and>
      effects b1 =
        [BeforeHide, SetAttribute 2 ''data-state'' ''close'',
         SetAttribute 1 ''aria-expanded'' ''false'',
         RemoveEventListener Document ''click'' HandleDocumentClick,
         RemoveEventListener Document ''keydown'' HandleKeyDown] \<and>
      effects (snd (transitionEnd 2 ov1 b1)) =
        effects b1 @
        [OnToggle True, SetProperty 2 placementX EmptyString,
         SetProperty 2 placementY EmptyString,
         RemoveEventListener Window ''resize'' InitPositionate,
         RemoveEventListener Window ''scroll'' InitPositionate, OnHide]"
    by blast
  have d': "distinct (listeners (open_page\<lparr>transitionRunning := \<lambda>el. False\<rparr>))"
    by simp
  from hide_order [OF d', of demo_overlay] obtain ov2 b2 where
    "overlay_hide demo_overlay (open_page\<lparr>transitionRunning := \<lambda>el. False\<rparr>) = (ov2, b2)"
    "effects b2 =
        [BeforeHide, SetAttribute 2 ''data-state'' ''close'',
         SetAttribute 1 ''aria-expanded'' ''false'',
         RemoveEventListener Document ''click'' HandleDocumentClick,
         RemoveEventListener Document ''keydown'' HandleKeyDown,
         OnToggle True, SetProperty 2 placementX EmptyString,
         SetProperty 2 placementY EmptyString,
         RemoveEventListener Window ''resize'' InitPositionate,
         RemoveEventListener Window ''scroll'' InitPositionate, OnHide]"
    unfolding Let_def by (simp (no_asm_use)) blast
  then have idle: "\<exists>ov2 b2.
      overlay_hide demo_overlay (open_page\<lparr>transitionRunning := \<lambda>el. False\<rparr>) = (ov2, b2) \<and>
      effects b2 =
        [BeforeHide, SetAttribute 2 ''data-state'' ''close'',
         SetAttribute 1 ''aria-expanded'' ''false'',
         RemoveEventListener Document ''click'' HandleDocumentClick,
         RemoveEventListener Document ''keydown'' HandleKeyDown,
         OnToggle True, SetProperty 2 placementX EmptyString,
         SetProperty 2 placementY EmptyString,
         RemoveEventListener Window ''resize'' InitPositionate,
         RemoveEventListener Window ''scroll'' InitPositionate, OnHide]"
    by blast
  from d running idle show ?thesis
    by (intro conjI)
qed

lemma hide_attributes:
  "getAttribute (contentElement ov) ''data-state'' (snd (overlay_hide ov b)) = Some ''close'' \<and>
   getAttribute (triggerElement ov) ''aria-expanded'' (snd (overlay_hide ov b)) = Some ''false''"
  by (simp add: overlay_hide_eq afterTransition_def hideCallback_eq getAttribute_def)

lemma hide_elements:
  "triggerElement (fst (overlay_hide ov b)) = triggerElement ov \<and>
   contentElement (fst (overlay_hide ov b)) = contentElement ov"
  by (simp add: overlay_hide_eq afterTransition_def hideCallback_eq)

lemma hide_effects:
  "\<exists>es. effects (snd (overlay_hide ov b)) = effects b @ es"
  by (simp add: overlay_hide_eq afterTransition_def hideCallback_eq)

text \<open>
  Claim C5. While the content carries \<^verbatim>\<open>data-state="open"\<close>, a click on the document
  whose target is inside neither the trigger nor the content, with neither prevention
  flag set, runs \<open>hide\<close>, which leaves \<^verbatim>\<open>data-state="close"\<close>; and a click whose target
  is inside the trigger never changes anything.
\<close>

theorem document_click_outside_closes:
  "(getAttribute (contentElement ov) ''data-state'' b = Some ''open'' \<and>
    (Document, ''click'', HandleDocumentClick) \<in> set (listeners b) \<and>
    \<not> contains b (triggerElement ov) tgt \<and>
    \<not> contains b (contentElement ov) tgt \<and>
    \<not> CreateOverlay.preventFromCloseOutside ov \<and>
    \<not> CreateOverlay.preventFromCloseInside ov \<longrightarrow>
      document_click tgt ov b = overlay_hide ov b \<and>
      getAttribute (contentElement ov) ''data-state'' (snd (document_click tgt ov b)) =
        Some ''close'') \<and>
   (contains b (triggerElement ov) tgt \<longrightarrow> document_click tgt ov b = (ov, b))"
  using hide_attributes [of ov b]
  by (simp add: document_click_def handleDocumentClick_def)

text \<open>On the open demo overlay: a click on a third element 3, and one on the trigger.\<close>

theorem document_click_outside_closes_witness:
  "getAttribute (contentElement demo_overlay) ''data-state'' open_page = Some ''open'' \<and>
   (Document, ''click'', HandleDocumentClick) \<in> set (listeners open_page) \<and>
   \<not> contains open_page (triggerElement demo_overlay) 3 \<and>
   \<not> contains open_page (contentElement demo_overlay) 3 \<and>
   contains open_page (triggerElement demo_overlay) 1 \<and>
   document_click 3 demo_overlay open_page = overlay_hide demo_overlay open_page \<and>
   getAttribute 2 ''data-state'' (snd (document_click 3 demo_overlay open_page)) =
     Some ''close'' \<and>
   document_click 1 demo_overlay open_page = (demo_overlay, open_page)"
proof -
  have h: "getAttribute (contentElement demo_overlay) ''data-state'' open_page = Some ''open''"
    "(Document, ''click'', HandleDocumentClick) \<in> set (listeners open_page)"
    "\<not> contains open_page (triggerElement demo_overlay) 3"
    "\<not> contains open_page (contentElement demo_overlay) 3"
    "contains open_page (triggerElement demo_overlay) 1"
    by (simp_all add: getAttribute_def)
  have n: "\<not> CreateOverlay.preventFromCloseOutside demo_overlay"
    "\<not> CreateOverlay.preventFromCloseInside demo_overlay"
    by simp_all
  from document_click_outside_closes [of demo_overlay open_page 3] h n
  have outside: "document_click 3 demo_overlay open_page = overlay_hide demo_overlay open_page"
    "getAttribute (contentElement demo_overlay) ''data-state''
       (snd (document_click 3 demo_overlay open_page)) = Some ''close''"
    by blast+
  from document_click_outside_closes [of demo_overlay open_page 1] h
  have inside: "document_click 1 demo_overlay open_page = (demo_overlay, open_page)"
    by blast
  from h outside inside show ?thesis
    by simp
qed

text \<open>
  Claim C10. While the overlay's keydown listener is registered on the document, a
  keydown event first has \<^verbatim>\<open>preventDefault()\<close> called on it, whatever the key, the
  strategy and the state; only then is \<open>hide\<close> run, if the key is Escape, the strategy
  is not hover, the content is open and closing from outside is not prevented.
\<close>

theorem keydown_prevents_default:
  assumes "(Document, ''keydown'', HandleKeyDown) \<in> set (listeners b)"
  shows "document_keydown key ov b =
           (if CreateOverlay.triggerStrategy ov \<noteq> Hover \<and> key = ''Escape'' \<and>
               getAttribute (contentElement ov) ''data-state'' b = Some ''open'' \<and>
               \<not> CreateOverlay.preventFromCloseOutside ov
            then overlay_hide ov (emit PreventDefault b)
            else (ov, emit PreventDefault b)) \<and>
         (\<exists>es. effects (snd (document_keydown key ov b)) = effects b @ PreventDefault # es)"
proof -
  have a: "getAttribute el name (emit e b) = getAttribute el name b" for el name e
    by (simp add: getAttribute_def emit_def)
  have eq: "document_keydown key ov b =
           (if CreateOverlay.triggerStrategy ov \<noteq> Hover \<and> key = ''Escape'' \<and>
               getAttribute (contentElement ov) ''data-state'' b = Some ''open'' \<and>
               \<not> CreateOverlay.preventFromCloseOutside ov
            then overlay_hide ov (emit PreventDefault b)
            else (ov, emit PreventDefault b))"
    using assms by (simp add: document_keydown_def handleKeyDown_def Let_def a)
  obtain es where es: "effects (snd (overlay_hide ov (emit PreventDefault b))) =
      effects (emit PreventDefault b) @ es"
    using hide_effects by blast
  have "\<exists>es. effects (snd (document_keydown key ov b)) = effects b @ PreventDefault # es"
    unfolding eq using es by (simp add: emit_def)
  with eq show ?thesis by blast
qed

text \<open>On the open demo overlay: the key "a", and the key "Escape".\<close>

theorem keydown_prevents_default_witness:
  "(Document, ''keydown'', HandleKeyDown) \<in> set (listeners open_page) \<and>
   document_keydown ''a'' demo_overlay open_page = (demo_overlay, emit PreventDefault open_page) \<and>
   document_keydown ''Escape'' demo_overlay open_page =
     overlay_hide demo_overlay (emit PreventDefault open_page)"
proof -
  have l: "(Document, ''keydown'', HandleKeyDown) \<in> set (listeners open_page)"
    by simp
  show ?thesis
    using l keydown_prevents_default [OF l, of "''a''" demo_overlay]
      keydown_prevents_default [OF l, of "''Escape''" demo_overlay]
    by (simp add: getAttribute_def)
qed

lemma show_attributes:
  assumes "overlay_show ov b = Inr (ov1, b1)"
  shows "triggerElement ov1 = triggerElement ov \<and> contentElement ov1 = contentElement ov \<and>
         CreateOverlay.triggerStrategy ov1 = CreateOverlay.triggerStrategy ov \<and>
         getAttribute (contentElement ov) ''data-state'' b1 = Some ''open'' \<and>
         getAttribute (triggerElement ov) ''aria-expanded'' b1 = Some ''true''"
  using assms
  by (auto simp add: overlay_show_def Let_def updateOverlayState_eq onToggleState_def
        emit_def getAttribute_def split: sum.splits)

lemma setShowOptions_attributes:
  assumes "setShowOptions plc off ov b = Inr (ov1, b1)"
  shows "triggerElement ov1 = triggerElement ov \<and> contentElement ov1 = contentElement ov \<and>
         getAttribute (contentElement ov) ''data-state'' b1 = Some ''open'' \<and>
         getAttribute (triggerElement ov) ''aria-expanded'' b1 = Some ''true''"
  using assms
  by (auto simp add: setShowOptions_def Let_def updateOverlayState_eq onToggleState_def
        emit_def getAttribute_def split: sum.splits)

lemma addEventListener_attributes [simp]:
  "attributes (addEventListener t ty h b) = attributes b"
  by (simp add: addEventListener_def emit_def)

lemma addEventOnMouseEnter_attributes [simp]:
  "attributes (addEventOnMouseEnter ov b) = attributes b"
  by (simp add: addEventOnMouseEnter_def)

lemma hide_agree:
  "attributesAgree (fst (overlay_hide ov b)) (snd (overlay_hide ov b))"
  using hide_attributes [of ov b] hide_elements [of ov b]
  by (simp add: attributesAgree_def)

lemma show_agree:
  "overlay_show ov b = Inr (ov1, b1) \<Longrightarrow> attributesAgree ov1 b1"
  using show_attributes [of ov b ov1 b1]
  by (simp add: attributesAgree_def)

lemma setShowOptions_agree:
  "setShowOptions plc off ov b = Inr (ov1, b1) \<Longrightarrow> attributesAgree ov1 b1"
  using setShowOptions_attributes [of plc off ov b ov1 b1]
  by (simp add: attributesAgree_def)

lemma toggle_agree:
  assumes "toggleStateOnClick ov b = Inr (ov1, b1)"
  shows "attributesAgree ov1 b1"
proof (cases "(case getAttribute (contentElement ov) ''data-state'' b of
                 None \<Rightarrow> ''close''
               | Some s \<Rightarrow> if s \<noteq> [] then s else ''close'') = ''close''")
  case True
  with assms obtain ov2 b2 where s: "overlay_show ov b = Inr (ov2, b2)"
    and r: "ov1 = ov2"
      "b1 = (if CreateOverlay.triggerStrategy ov2 = Hover then addEventOnMouseEnter ov2 b2 else b2)"
    by (auto simp add: toggleStateOnClick_def Let_def split: sum.splits)
  from show_agree [OF s] show ?thesis
    by (simp add: r attributesAgree_def getAttribute_def)
next
  case False
  with assms have "(ov1, b1) = overlay_hide ov b"
    by (simp add: toggleStateOnClick_def Let_def)
  then show ?thesis
    using hide_agree [of ov b] by (metis fst_conv snd_conv)
qed

lemma initInstance_agree:
  assumes "initInstance ov b = Inr (ov1, b1)"
  shows "attributesAgree ov1 b1"
proof (cases "CreateOverlay.defaultState ov = Open")
  case True
  with assms obtain ov2 b2 where
    s: "overlay_show ov
          (updateOverlayState Open (triggerElement ov) (contentElement ov) b) = Inr (ov2, b2)"
    and r: "ov1 = ov2" "attributes b1 = attributes b2"
    by (auto simp add: initInstance_def Let_def split: sum.splits)
  from show_agree [OF s] show ?thesis
    by (simp add: r attributesAgree_def getAttribute_def)
next
  case False
  then have "CreateOverlay.defaultState ov = Close"
    by (cases "CreateOverlay.defaultState ov") simp_all
  with assms have "ov1 = ov"
    and "attributes b1 = stateAttributes Close (triggerElement ov) (contentElement ov)
           (stateAttributes Close (triggerElement ov) (contentElement ov) (attributes b))"
    by (auto simp add: initInstance_def Let_def updateOverlayState_eq)
  then show ?thesis
    by (simp add: attributesAgree_def getAttribute_def)
qed

lemma constructor_agree:
  assumes "CreateOverlay_constructor trigger content opts b = Inr (ov1, b1)"
  shows "attributesAgree ov1 b1"
proof -
  from assms obtain ov0 b0 where "initInstance ov0 b0 = Inr (ov1, b1)"
    by (auto simp add: CreateOverlay_constructor_def Let_def
          split: js_value.splits sum.splits)
  then show ?thesis
    by (rule initInstance_agree)
qed

lemma show_returns:
  "CreatePopper.offsetDistance (CreateOverlay.popper ov) = JNum n \<Longrightarrow>
   \<exists>ov1 b1. overlay_show ov b = Inr (ov1, b1)"
  by (simp add: overlay_show_def updatePosition_number Let_def)

lemma setShowOptions_returns:
  "CreatePopper.offsetDistance (CreateOverlay.popper ov) = JNum n \<Longrightarrow>
   \<exists>ov1 b1. setShowOptions plc off ov b = Inr (ov1, b1)"
  by (simp add: setShowOptions_def setOptions_number Let_def)

lemma toggle_returns:
  assumes "CreatePopper.offsetDistance (CreateOverlay.popper ov) = JNum n"
  shows "\<exists>ov1 b1. toggleStateOnClick ov b = Inr (ov1, b1)"
proof -
  obtain ov2 b2 where "overlay_show ov b = Inr (ov2, b2)"
    using show_returns [OF assms] by blast
  then show ?thesis
    by (cases "overlay_hide ov b") (simp add: toggleStateOnClick_def Let_def)
qed

lemma initInstance_returns:
  assumes "CreatePopper.offsetDistance (CreateOverlay.popper ov) = JNum n"
  shows "\<exists>ov1 b1. initInstance ov b = Inr (ov1, b1)"
proof -
  obtain ov2 b2 where
    "overlay_show ov (updateOverlayState Open (triggerElement ov) (contentElement ov) b) =
       Inr (ov2, b2)"
    using show_returns [OF assms] by blast
  then show ?thesis
    by (cases "CreateOverlay.defaultState ov") (simp_all add: initInstance_def Let_def)
qed

lemma constructor_returns:
  "\<exists>ov1 b1. CreateOverlay_constructor (JElement t) (JElement ct) opts b = Inr (ov1, b1)"
proof -
  have "\<exists>ov1 b1. initInstance ov b = Inr (ov1, b1)"
    if "CreatePopper.offsetDistance (CreateOverlay.popper ov) =
        JNum (case OverlayOptions.offsetDistance opts of
                None \<Rightarrow> 6 | Some v \<Rightarrow> if v \<noteq> 0 then v else 6)" for ov
    using that by (rule initInstance_returns)
  then show ?thesis
    by (simp add: CreateOverlay_constructor_def getElement_def CreatePopper_constructor_def
          Let_def)
qed

text \<open>
  Claim C9. After the constructor, \<open>show\<close>, \<open>hide\<close>, \<open>setShowOptions\<close> and the toggle on a
  click of the trigger, the content's \<^verbatim>\<open>data-state\<close> is \<^verbatim>\<open>"open"\<close> or \<^verbatim>\<open>"close"\<close>, and
  the trigger's \<^verbatim>\<open>aria-expanded\<close> is \<^verbatim>\<open>"true"\<close> in the first case and \<^verbatim>\<open>"false"\<close> in
  the second. (Each of the four operations that can throw returns for an overlay built by
  the constructor: lemmas \<open>constructor_returns\<close>, \<open>show_returns\<close>,
  \<open>setShowOptions_returns\<close>, \<open>toggle_returns\<close>.)
\<close>

theorem overlay_attributes_agree:
  "(CreateOverlay_constructor trigger content opts b = Inr (ov1, b1) \<longrightarrow>
      attributesAgree ov1 b1) \<and>
   (overlay_show ov b = Inr (ov2, b2) \<longrightarrow> attributesAgree ov2 b2) \<and>
   attributesAgree (fst (overlay_hide ov b)) (snd (overlay_hide ov b)) \<and>
   (setShowOptions plc off ov b = Inr (ov3, b3) \<longrightarrow> attributesAgree ov3 b3) \<and>
   (toggleStateOnClick ov b = Inr (ov4, b4) \<longrightarrow> attributesAgree ov4 b4)"
proof (intro conjI impI)
  assume "CreateOverlay_constructor trigger content opts b = Inr (ov1, b1)"
  then show "attributesAgree ov1 b1" by (rule constructor_agree)
next
  assume "overlay_show ov b = Inr (ov2, b2)"
  then show "attributesAgree ov2 b2" by (rule show_agree)
next
  show "attributesAgree (fst (overlay_hide ov b)) (snd (overlay_hide ov b))"
    by (rule hide_agree)
next
  assume "setShowOptions plc off ov b = Inr (ov3, b3)"
  then show "attributesAgree ov3 b3" by (rule setShowOptions_agree)
next
  assume "toggleStateOnClick ov b = Inr (ov4, b4)"
  then show "attributesAgree ov4 b4" by (rule toggle_agree)
qed

text \<open>The four operations that can throw, on the demo overlay.\<close>

theorem overlay_attributes_agree_witness:
  "(\<exists>ov1 b1. CreateOverlay_constructor (JElement 1) (JElement 2) demo_options page =
      Inr (ov1, b1) \<and> attributesAgree ov1 b1) \<and>
   (\<exists>ov2 b2. overlay_show demo_overlay page = Inr (ov2, b2) \<and> attributesAgree ov2 b2) \<and>
   (\<exists>ov3 b3. setShowOptions (Placement Top None) None demo_overlay page = Inr (ov3, b3) \<and>
      attributesAgree ov3 b3) \<and>
   (\<exists>ov4 b4. toggleStateOnClick demo_overlay open_page = Inr (ov4, b4) \<and>
      attributesAgree ov4 b4)"
proof -
  have n: "CreatePopper.offsetDistance (CreateOverlay.popper demo_overlay) = JNum 6"
    by simp
  obtain ov1 b1 where 1: "CreateOverlay_constructor (JElement 1) (JElement 2) demo_options page =
      Inr (ov1, b1)"
    using constructor_returns by blast
  obtain ov2 b2 where 2: "overlay_show demo_overlay page = Inr (ov2, b2)"
    using show_returns [OF n] by blast
  obtain ov3 b3 where 3: "setShowOptions (Placement Top None) None demo_overlay page =
      Inr (ov3, b3)"
    using setShowOptions_returns [OF n] by blast
  obtain ov4 b4 where 4: "toggleStateOnClick demo_overlay open_page = Inr (ov4, b4)"
    using toggle_returns [OF n] by blast
  from overlay_attributes_agree
    [of "JElement 1" "JElement 2" demo_options page ov1 b1 demo_overlay ov2 b2
        "Placement Top None" None ov3 b3]
    1 2 3
  have a: "attributesAgree ov1 b1" "attributesAgree ov2 b2" "attributesAgree ov3 b3"
    by blast+
  from overlay_attributes_agree [where ov = demo_overlay and b = open_page and ?ov4.0 = ov4
      and ?b4.0 = b4] 4
  have "attributesAgree ov4 b4"
    by blast
  with a 1 2 3 4 show ?thesis
    by blast
qed

end
